theory Spec2Isabelle
  imports Main "HOL-Library.Word"
begin

unbundle bit_operations_syntax

section \<open>Bytes\<close>

type_synonym byte = "8 word"
type_synonym bytes = "byte list"

text \<open>Go's \<^verbatim>\<open>[]byte("...")\<close>: the ASCII bytes of a string literal.\<close>

definition ascii :: "string \<Rightarrow> bytes" where
  "ascii s = map of_char s"

text \<open>Go's \<^verbatim>\<open>fmt.Sprintf("%d", n)\<close> for a non-negative and for a signed integer.\<close>

function decimal_nat :: "nat \<Rightarrow> string" where
  "decimal_nat n = (if n < 10 then [''0123456789'' ! n]
                    else decimal_nat (n div 10) @ [''0123456789'' ! (n mod 10)])"
  by pat_completeness auto
termination
  by (relation "measure id") auto

definition decimal_int :: "int \<Rightarrow> string" where
  "decimal_int i = (if i < 0 then CHR ''-'' # decimal_nat (nat (- i)) else decimal_nat (nat i))"

text \<open>Splitting a list into \<open>n\<close> consecutive chunks of \<open>k\<close> elements.\<close>

fun chop :: "nat \<Rightarrow> nat \<Rightarrow> 'a list \<Rightarrow> 'a list list" where
  "chop 0 k xs = []"
| "chop (Suc n) k xs = take k xs # chop n k (drop k xs)"

section \<open>SHA-3 (package crypto/sha3 of the Go library, FIPS 202)\<close>

text \<open>
  The repository hashes with \<^verbatim>\<open>sha3.New512\<close> and \<^verbatim>\<open>sha3.New256\<close>. The functions
  are those of FIPS 202: the sponge construction over Keccak-f[1600], with rate 72 and
  136 bytes and the domain-separation suffix 01. The state is five planes (y) of five
  lanes (x); a lane is 64 bits, most significant bit first, so that a rotation to the
  left by \<open>n\<close> moves the first \<open>n\<close> bits to the end.
\<close>

type_synonym lane = "bool list"
type_synonym plane = "lane list"

fun lane_xor :: "lane \<Rightarrow> lane \<Rightarrow> lane" where
  "lane_xor (a # as) (b # bs) = (a \<noteq> b) # lane_xor as bs"
| "lane_xor _ _ = []"

fun lane_andnot :: "lane \<Rightarrow> lane \<Rightarrow> lane" where
  "lane_andnot (a # as) (b # bs) = (\<not> a \<and> b) # lane_andnot as bs"
| "lane_andnot _ _ = []"

fun plane_xor :: "plane \<Rightarrow> plane \<Rightarrow> plane" where
  "plane_xor (a # as) (b # bs) = lane_xor a b # plane_xor as bs"
| "plane_xor _ _ = []"

fun plane_andnot :: "plane \<Rightarrow> plane \<Rightarrow> plane" where
  "plane_andnot (a # as) (b # bs) = lane_andnot a b # plane_andnot as bs"
| "plane_andnot _ _ = []"

fun state_xor :: "plane list \<Rightarrow> plane list \<Rightarrow> plane list" where
  "state_xor (a # as) (b # bs) = plane_xor a b # state_xor as bs"
| "state_xor _ _ = []"

definition rotl64 :: "nat \<Rightarrow> lane \<Rightarrow> lane" where
  "rotl64 n w = drop n w @ take n w"

definition rot1 :: "'a list \<Rightarrow> 'a list" where
  "rot1 p = tl p @ [hd p]"

definition byte_bits :: "byte \<Rightarrow> bool list" where
  "byte_bits b = map (bit b) [7, 6, 5, 4, 3, 2, 1, 0]"

definition bits_byte :: "bool list \<Rightarrow> byte" where
  "bits_byte bs = horner_sum of_bool 2 (rev bs)"

definition rc_lane :: "64 word \<Rightarrow> lane" where
  "rc_lane w = map (bit w) (rev [0..<64])"

definition keccak_RC :: "64 word list" where
  "keccak_RC = [0x1, 0x8082, 0x800000000000808a, 0x8000000080008000, 0x808b, 0x80000001,
     0x8000000080008081, 0x8000000000008009, 0x8a, 0x88, 0x80008009, 0x8000000a, 0x8000808b,
     0x800000000000008b, 0x8000000000008089, 0x8000000000008003, 0x8000000000008002,
     0x8000000000000080, 0x800a, 0x800000008000000a, 0x8000000080008081, 0x8000000000008080,
     0x80000001, 0x8000000080008008]"

text \<open>
  The steps rho and pi together: the lane at position \<open>x + 5y\<close> of the result is the
  lane \<open>src\<close> of the argument rotated by \<open>r\<close>, for the entry \<open>(src, r)\<close> at row \<open>y\<close>
  and column \<open>x\<close> of the table.
\<close>

definition rho_pi_table :: "(nat \<times> nat) list list" where
  "rho_pi_table =
    [[(0, 0), (6, 44), (12, 43), (18, 21), (24, 14)],
     [(3, 28), (9, 20), (10, 3), (16, 45), (22, 61)],
     [(1, 1), (7, 6), (13, 25), (19, 8), (20, 18)],
     [(4, 27), (5, 36), (11, 10), (17, 15), (23, 56)],
     [(2, 62), (8, 55), (14, 39), (15, 41), (21, 2)]]"

definition theta_c :: "plane list \<Rightarrow> plane" where
  "theta_c a = foldl plane_xor (hd a) (tl a)"

definition theta_d :: "plane \<Rightarrow> plane" where
  "theta_d c = plane_xor (last c # butlast c) (map (rotl64 1) (rot1 c))"

definition theta_apply :: "plane \<Rightarrow> plane list \<Rightarrow> plane list" where
  "theta_apply d a = map (\<lambda>p. plane_xor p d) a"

definition theta :: "plane list \<Rightarrow> plane list" where
  "theta a = theta_apply (theta_d (theta_c a)) a"

definition rho_pi_flat :: "lane list \<Rightarrow> plane list" where
  "rho_pi_flat f = map (map (\<lambda>(src, r). rotl64 r (f ! src))) rho_pi_table"

definition rho_pi :: "plane list \<Rightarrow> plane list" where
  "rho_pi a = rho_pi_flat (concat a)"

definition chi_plane :: "plane \<Rightarrow> plane" where
  "chi_plane b = plane_xor b (plane_andnot (rot1 b) (rot1 (rot1 b)))"

definition chi :: "plane list \<Rightarrow> plane list" where
  "chi a = map chi_plane a"

definition iota :: "64 word \<Rightarrow> plane list \<Rightarrow> plane list" where
  "iota rc a = (lane_xor (hd (hd a)) (rc_lane rc) # tl (hd a)) # tl a"

definition keccak_round :: "plane list \<Rightarrow> 64 word \<Rightarrow> plane list" where
  "keccak_round a rc = iota rc (chi (rho_pi (theta a)))"

definition keccak_f :: "plane list \<Rightarrow> plane list" where
  "keccak_f a = foldl keccak_round a keccak_RC"

text \<open>Eight bytes, least significant first, make a lane.\<close>

definition lane_of_bytes :: "bytes \<Rightarrow> lane" where
  "lane_of_bytes bs = concat (map byte_bits (rev bs))"

definition bytes_of_lane :: "lane \<Rightarrow> bytes" where
  "bytes_of_lane w = rev (map bits_byte (chop 8 8 w))"

definition block_state :: "bytes \<Rightarrow> plane list" where
  "block_state blk =
     chop 5 5 (map lane_of_bytes (chop 25 8 (blk @ replicate (200 - length blk) 0)))"

definition absorb_block :: "plane list \<Rightarrow> bytes \<Rightarrow> plane list" where
  "absorb_block st blk = keccak_f (state_xor st (block_state blk))"

function absorb :: "nat \<Rightarrow> plane list \<Rightarrow> bytes \<Rightarrow> plane list" where
  "absorb rate st bs = (if rate = 0 \<or> length bs < rate then st
                        else absorb rate (absorb_block st (take rate bs)) (drop rate bs))"
  by pat_completeness auto
termination
  by (relation "measure (\<lambda>(rate, st, bs). length bs)") auto

definition sha3_pad :: "nat \<Rightarrow> bytes \<Rightarrow> bytes" where
  "sha3_pad rate m = (let q = rate - length m mod rate
                      in if q = 1 then m @ [0x86]
                         else m @ [0x06] @ replicate (q - 2) 0 @ [0x80])"

definition squeeze :: "nat \<Rightarrow> plane list \<Rightarrow> bytes" where
  "squeeze outlen st = take outlen (concat (map bytes_of_lane (concat st)))"

definition sha3 :: "nat \<Rightarrow> nat \<Rightarrow> bytes \<Rightarrow> bytes" where
  "sha3 rate outlen m = squeeze outlen (absorb rate (block_state []) (sha3_pad rate m))"

definition sha3_512 :: "bytes \<Rightarrow> bytes" where
  "sha3_512 = sha3 72 64"

definition sha3_256 :: "bytes \<Rightarrow> bytes" where
  "sha3_256 = sha3 136 32"

section \<open>The cipher (EAMSA 512 basic implementation)\<close>

definition BlockSize :: nat where "BlockSize = 64"
definition Rounds :: nat where "Rounds = 16"
definition NonceSize :: nat where "NonceSize = 16"
definition TagSize :: nat where "TagSize = 64"
definition KeySize :: nat where "KeySize = 32"

text \<open>
  The errors of \<^verbatim>\<open>EncryptData\<close> and \<^verbatim>\<open>DecryptData\<close>, one constructor for each
  \<^verbatim>\<open>fmt.Errorf\<close> with the values it formats, and \<open>Panic\<close> for a run-time panic
  (index out of range).
\<close>

datatype error =
    InvalidMasterKeySize nat nat
  | InvalidNonceSize nat nat
  | DataTooShort nat nat
  | AuthTagFailed
  | EmptyPlaintext
  | InvalidPadding nat
  | InvalidPaddingBytes
  | Panic

subsection \<open>Key derivation\<close>

definition DeriveKeys :: "bytes \<Rightarrow> error + bytes list" where
  "DeriveKeys masterKey =
     (if length masterKey \<noteq> KeySize then Inl (InvalidMasterKeySize KeySize (length masterKey))
      else Inr (map (\<lambda>i. take 16 (sha3_512 (masterKey @ ascii (''key_'' @ decimal_nat i))))
                    [0..<11]))"

subsection \<open>Nonce and IV\<close>

text \<open>
  \<^verbatim>\<open>GenerateNonce\<close> turns sixteen readings of the entropy source into bytes with
  \<^verbatim>\<open>byte(entropy * 255)\<close>. The source that \<^verbatim>\<open>EncryptData\<close> passes returns
  \<^verbatim>\<open>float64(digest[0]) / 256.0\<close>, a multiple of 1/256 that floating point represents
  exactly, so the byte is \<open>255 * d div 256\<close> for the digest byte \<open>d\<close>; the argument here
  is the digest byte of each reading.
\<close>

definition GenerateNonce :: "(nat \<Rightarrow> byte) \<Rightarrow> bytes" where
  "GenerateNonce entropySource =
     map (\<lambda>i. of_nat (unat (entropySource i) * 255 div 256)) [0..<NonceSize]"

definition DeriveIV :: "bytes \<Rightarrow> bytes \<Rightarrow> bytes" where
  "DeriveIV nonce key = sha3_512 (nonce @ key)"

subsection \<open>Block transform\<close>

definition SubstituteBlock :: "bytes \<Rightarrow> bytes" where
  "SubstituteBlock block = map (\<lambda>b. sha3_256 [b] ! 0) block"

definition PermuteBlock :: "bytes \<Rightarrow> bytes" where
  "PermuteBlock block =
     foldl (\<lambda>result i. result[(i * 5 + 7) mod length block := block ! i])
           (replicate (length block) 0) [0..<length block]"

text \<open>
  \<^verbatim>\<open>MixBlock\<close> reads \<^verbatim>\<open>key[i%len(key)]\<close>; every caller passes a key of 64 bytes.
\<close>

definition MixBlock :: "bytes \<Rightarrow> bytes \<Rightarrow> bytes" where
  "MixBlock block key = map (\<lambda>i. block ! i XOR key ! (i mod length key)) [0..<length block]"

text \<open>The loop that fills \<^verbatim>\<open>expandedKey\<close> from a round key.\<close>

definition expandKey :: "bytes \<Rightarrow> bytes" where
  "expandKey roundKey = map (\<lambda>i. roundKey ! (i mod length roundKey)) [0..<BlockSize]"

text \<open>
  The final loop of \<^verbatim>\<open>EncryptBlock\<close> and the first of \<^verbatim>\<open>DecryptBlock\<close>:
  the first 64 bytes are combined with the expanded last key. The blocks that
  \<^verbatim>\<open>EncryptData\<close> and \<^verbatim>\<open>DecryptData\<close> pass have 64 bytes.
\<close>

definition xorLastKey :: "bytes \<Rightarrow> bytes \<Rightarrow> bytes" where
  "xorLastKey block expandedLastKey =
     map (\<lambda>i. block ! i XOR expandedLastKey ! i) [0..<BlockSize] @ drop BlockSize block"

definition encRound :: "bytes list \<Rightarrow> bytes \<Rightarrow> nat \<Rightarrow> bytes" where
  "encRound keys ciphertext round =
     MixBlock (PermuteBlock (SubstituteBlock ciphertext))
              (expandKey (keys ! (round mod length keys)))"

definition EncryptBlock :: "bytes \<Rightarrow> bytes list \<Rightarrow> bytes" where
  "EncryptBlock block keys =
     xorLastKey (foldl (encRound keys) block [0..<Rounds])
                (expandKey (keys ! (length keys - 1)))"

definition ReversePermuteBlock :: "bytes \<Rightarrow> bytes" where
  "ReversePermuteBlock block =
     foldl (\<lambda>result i.
              case find (\<lambda>j. (j * 5 + 7) mod length block = i) [0..<length block] of
                None \<Rightarrow> result
              | Some j \<Rightarrow> result[i := block ! j])
           (replicate (length block) 0) [0..<length block]"

definition ReverseSubstituteBlock :: "bytes \<Rightarrow> bytes" where
  "ReverseSubstituteBlock block = SubstituteBlock block"

definition decRound :: "bytes list \<Rightarrow> bytes \<Rightarrow> nat \<Rightarrow> bytes" where
  "decRound keys plaintext round =
     ReverseSubstituteBlock (ReversePermuteBlock
       (MixBlock plaintext (expandKey (keys ! (round mod length keys)))))"

definition DecryptBlock :: "bytes \<Rightarrow> bytes list \<Rightarrow> bytes" where
  "DecryptBlock ciphertext keys =
     foldl (decRound keys)
           (xorLastKey ciphertext (expandKey (keys ! (length keys - 1))))
           (rev [0..<Rounds])"

subsection \<open>HMAC\<close>

definition hmacBlockSize :: nat where "hmacBlockSize = 136"

definition hmacExpandKey :: "bytes \<Rightarrow> bytes" where
  "hmacExpandKey key =
     (if length key \<le> hmacBlockSize then key @ replicate (hmacBlockSize - length key) 0
      else sha3_512 key @ replicate (hmacBlockSize - length (sha3_512 key)) 0)"

definition ComputeHMAC :: "bytes \<Rightarrow> bytes \<Rightarrow> bytes" where
  "ComputeHMAC key data =
     (let expandedKey = hmacExpandKey key;
          ipad = map (\<lambda>b. b XOR 0x36) expandedKey;
          opad = map (\<lambda>b. b XOR 0x5c) expandedKey;
          innerDigest = sha3_512 (ipad @ data)
      in sha3_512 (opad @ innerDigest))"

definition VerifyHMAC :: "bytes \<Rightarrow> bytes \<Rightarrow> bytes \<Rightarrow> bool" where
  "VerifyHMAC key data tag =
     (let computed = ComputeHMAC key data
      in if length computed \<noteq> length tag then False
         else foldl (\<lambda>result (c, t). result OR (c XOR t)) (0 :: byte) (zip computed tag) = 0)"

subsection \<open>Encryption\<close>

text \<open>
  The CBC loops, over the 64-byte blocks of the padded plaintext and of the ciphertext.
  In \<^verbatim>\<open>DecryptData\<close> a final block of fewer than 64 bytes is read up to 64 bytes
  (the slice has the capacity of the whole frame) and the write of the plaintext byte
  behind the end of \<^verbatim>\<open>plaintext\<close> panics.
\<close>

fun cbcEncrypt :: "bytes list \<Rightarrow> bytes \<Rightarrow> bytes list \<Rightarrow> bytes" where
  "cbcEncrypt keys prevBlock [] = []"
| "cbcEncrypt keys prevBlock (b # bs) =
     (let encryptedBlock = EncryptBlock (map2 (XOR) b prevBlock) keys
      in encryptedBlock @ cbcEncrypt keys encryptedBlock bs)"

function cbcDecrypt :: "bytes list \<Rightarrow> bytes \<Rightarrow> bytes \<Rightarrow> error + bytes" where
  "cbcDecrypt keys iv ciphertext =
     (if ciphertext = [] then Inr []
      else if length ciphertext < BlockSize then Inl Panic
      else (let encryptedBlock = take BlockSize ciphertext;
                decryptedBlock = DecryptBlock encryptedBlock keys
            in case cbcDecrypt keys encryptedBlock (drop BlockSize ciphertext) of
                 Inl e \<Rightarrow> Inl e
               | Inr rest \<Rightarrow> Inr (map2 (XOR) decryptedBlock iv @ rest)))"
  by pat_completeness auto
termination
  by (relation "measure (\<lambda>(keys, iv, ciphertext). length ciphertext)")
     (auto simp: BlockSize_def)

text \<open>The padding step of \<^verbatim>\<open>EncryptData\<close>.\<close>

definition padPlaintext :: "bytes \<Rightarrow> bytes" where
  "padPlaintext plaintext =
     (let paddedLength = ((length plaintext + BlockSize - 1) div BlockSize) * BlockSize;
          paddingLength = paddedLength - length plaintext
      in plaintext @ replicate paddingLength (of_nat paddingLength))"

text \<open>
  \<^verbatim>\<open>EncryptData\<close>. A nil nonce is \<open>None\<close>; it is then generated from the readings
  \<open>rnd\<close> of \<^verbatim>\<open>math.Random()\<close>, each printed with \<^verbatim>\<open>%d\<close> and hashed.
\<close>

definition EncryptData :: "(nat \<Rightarrow> int) \<Rightarrow> bytes \<Rightarrow> bytes \<Rightarrow> bytes option \<Rightarrow> error + bytes" where
  "EncryptData rnd plaintext masterKey nonce0 =
     (if length masterKey \<noteq> KeySize
      then Inl (InvalidMasterKeySize KeySize (length masterKey))
      else case DeriveKeys masterKey of
        Inl err \<Rightarrow> Inl err
      | Inr keys \<Rightarrow>
         (let nonce = (case nonce0 of
                         None \<Rightarrow> GenerateNonce (\<lambda>i. sha3_256 (ascii (decimal_int (rnd i))) ! 0)
                       | Some n \<Rightarrow> n)
          in if length nonce \<noteq> NonceSize then Inl (InvalidNonceSize NonceSize (length nonce))
             else
              (let iv = DeriveIV nonce masterKey;
                   padded = padPlaintext plaintext;
                   ciphertext = cbcEncrypt keys iv (chop (length padded div BlockSize) BlockSize padded);
                   authKey = keys ! (length keys - 1);
                   tag = ComputeHMAC authKey (nonce @ ciphertext)
               in Inr (ciphertext @ nonce @ tag))))"

subsection \<open>Decryption\<close>

definition removePadding :: "bytes \<Rightarrow> error + bytes" where
  "removePadding plaintext =
     (if length plaintext = 0 then Inl EmptyPlaintext
      else (let paddingLength = unat (plaintext ! (length plaintext - 1))
            in if paddingLength > BlockSize \<or> paddingLength = 0
               then Inl (InvalidPadding paddingLength)
               else if \<not> list_all (\<lambda>b. b = of_nat paddingLength)
                                  (drop (length plaintext - paddingLength) plaintext)
               then Inl InvalidPaddingBytes
               else Inr (take (length plaintext - paddingLength) plaintext)))"

definition DecryptData :: "bytes \<Rightarrow> bytes \<Rightarrow> error + bytes" where
  "DecryptData encryptedData masterKey =
     (if length masterKey \<noteq> KeySize
      then Inl (InvalidMasterKeySize KeySize (length masterKey))
      else if length encryptedData < NonceSize + TagSize
      then Inl (DataTooShort (NonceSize + TagSize) (length encryptedData))
      else
       (let ciphertextLength = length encryptedData - NonceSize - TagSize;
            ciphertext = take ciphertextLength encryptedData;
            nonce = take NonceSize (drop ciphertextLength encryptedData);
            receivedTag = drop (ciphertextLength + NonceSize) encryptedData
        in case DeriveKeys masterKey of
             Inl err \<Rightarrow> Inl err
           | Inr keys \<Rightarrow>
              (let authKey = keys ! (length keys - 1);
                   tagData = nonce @ ciphertext
               in if \<not> VerifyHMAC authKey tagData receivedTag then Inl AuthTagFailed
                  else case cbcDecrypt keys (DeriveIV nonce masterKey) ciphertext of
                         Inl err \<Rightarrow> Inl err
                       | Inr plaintext \<Rightarrow> removePadding plaintext)))"

section \<open>The NIST SP 800-56A key derivation (kdf-compliance.go)\<close>

definition be32 :: "32 word \<Rightarrow> bytes" where
  "be32 c = [ucast (drop_bit 24 c AND 0xFF), ucast (drop_bit 16 c AND 0xFF),
             ucast (drop_bit 8 c AND 0xFF), ucast (c AND 0xFF)]"

text \<open>
  \<^verbatim>\<open>DeriveKeysNISTSP80056A\<close>: the master key and the nonce are arrays of 32 and 16
  bytes, the counter is a \<^verbatim>\<open>uint32\<close> and its sum with the index wraps around.
\<close>

definition DeriveKeysNISTSP80056A :: "bytes \<Rightarrow> bytes \<Rightarrow> bytes \<Rightarrow> 32 word \<Rightarrow> bytes list" where
  "DeriveKeysNISTSP80056A masterKey nonce sharedSecret counter =
     map (\<lambda>keyIndex.
            take 16 (sha3_512 (be32 (counter + of_nat (keyIndex + 1))
                               @ masterKey @ nonce @ sharedSecret)))
         [0..<11]"

section \<open>The S-box tables (phase2-sbox-player.go)\<close>

text \<open>
  \<^verbatim>\<open>SBoxTable\<close> is an array of eight arrays of 256 bytes; a Go array literal with
  fewer elements than the array leaves the rest zero.
\<close>

definition sboxRow :: "bytes \<Rightarrow> bytes" where
  "sboxRow given = given @ replicate (256 - length given) 0"

definition SBoxTable :: "bytes list" where
  "SBoxTable =
    [sboxRow [0xd7, 0xaa, 0x74, 0xd8, 0x62, 0xb1, 0x72, 0x50,
              0xa8, 0xfb, 0xc0, 0x54, 0x3d, 0x6b, 0x88, 0x47],
     sboxRow [0x63, 0x7c, 0x77, 0x7b, 0xf2, 0x6b, 0x6f, 0xc5],
     sboxRow [0x52, 0x09, 0x6a, 0xd5, 0x30, 0x36, 0xa5, 0x38],
     sboxRow [0xbf, 0x40, 0xa3, 0x9e, 0x81, 0xf3, 0xd7, 0xfb],
     sboxRow [0x7e, 0xfe, 0xde, 0xdc, 0xb2, 0xb6, 0xd4, 0xe8],
     sboxRow [0x85, 0x57, 0x13, 0x23, 0x94, 0x20, 0x14, 0x02],
     sboxRow [0xa1, 0x48, 0x69, 0xd9, 0xf4, 0x2a, 0x6c, 0x54],
     sboxRow [0x73, 0x62, 0x97, 0x23, 0xcb, 0x61, 0x97, 0x67]]"

text \<open>\<^verbatim>\<open>ApplySBoxes\<close> on a block of 64 bytes: byte \<open>8i + j\<close> goes through box \<open>j\<close>.\<close>

definition ApplySBoxes :: "bytes list \<Rightarrow> bytes \<Rightarrow> bytes" where
  "ApplySBoxes sboxes input =
     map (\<lambda>k. sboxes ! (k mod 8) ! unat (input ! k)) [0..<64]"

section \<open>Key rotation (key-rotation.go)\<close>

datatype KeyState =
    KeyStateActive | KeyStatePending | KeyStateRotated | KeyStateArchived | KeyStateDestroyed

text \<open>A \<^verbatim>\<open>time.Time\<close> is modelled by its nanoseconds; the zero value by 0.\<close>

type_synonym time = int

record KeyMetadata =
  ID :: string
  Version :: int
  State :: KeyState
  CreatedAt :: time
  ActivatedAt :: time
  RotatedAt :: time
  ArchivedAt :: time
  DestroyedAt :: time
  KeyHash :: string
  EncryptionCount :: int
  DecryptionCount :: int

text \<open>
  A Go slice of bytes points into a backing array, which the caller and other slices
  may share. The memory that holds key bytes is a map from addresses to bytes, and a
  slice is the address of its first element and its length; two slices share bytes
  when their address ranges meet. No operation here appends to a slice, so the
  capacity is left out. A nil slice is \<open>None\<close>.
\<close>

type_synonym addr = nat
type_synonym heap = "addr \<Rightarrow> byte"

record slice =
  Data :: addr
  Len :: nat

definition sliceBytes :: "heap \<Rightarrow> slice \<Rightarrow> bytes" where
  "sliceBytes h s = map (\<lambda>i. h (Data s + i)) [0..<Len s]"

definition sliceAddrs :: "slice \<Rightarrow> addr set" where
  "sliceAddrs s = {Data s ..< Data s + Len s}"

record KeyEntry =
  Metadata :: KeyMetadata
  Material :: "slice option"

record KeyRotationPolicy =
  Enabled :: bool
  IntervalDays :: int
  RetentionCycles :: int
  MaxKeyAgeDays :: int
  MinKeyAgeDays :: int
  ArchiveLocation :: string
  DestructionMethod :: string
  DestructionPasses :: int

definition DefaultKeyRotationPolicy :: KeyRotationPolicy where
  "DefaultKeyRotationPolicy =
     \<lparr>Enabled = True, IntervalDays = 365, RetentionCycles = 3, MaxKeyAgeDays = 730,
      MinKeyAgeDays = 30, ArchiveLocation = ''/var/lib/eamsa512/key-archive/'',
      DestructionMethod = ''random'', DestructionPasses = 3\<rparr>"

text \<open>
  The key manager. Its entries are objects that \<^verbatim>\<open>history\<close> and \<^verbatim>\<open>activeKey\<close>
  point to. An entry is allocated by \<^verbatim>\<open>NewKeyManager\<close> and by \<^verbatim>\<open>RotateKey\<close>
  only, and both store it in \<^verbatim>\<open>history\<close> under its version at once; so the store
  of the entries is the map \<open>history\<close>, the address of an entry is its version, and the
  pointer \<open>activeKey\<close> is a version (\<open>None\<close> is nil). The lines written to the audit
  log, the scheduler and the expiry date, which no operation here reads, are left out.
\<close>

record KeyManager =
  activeKey :: "int option"
  history :: "int \<rightharpoonup> KeyEntry"
  currentVersion :: int
  policy :: KeyRotationPolicy
  lastRotationTime :: time

datatype km_error =
    InvalidInitialKeySize nat nat
  | AuditLogFailed string
  | InvalidNewKeySize nat nat
  | MinimumAgeNotReached int
  | IntervalNotPositive
  | MaxAgeNotAboveInterval
  | RetentionBelowOne
  | KeyVersionNotFound int

definition hexDigit :: "nat \<Rightarrow> char" where
  "hexDigit n = ''0123456789abcdef'' ! n"

definition hexString :: "bytes \<Rightarrow> string" where
  "hexString bs = concat (map (\<lambda>b. [hexDigit (unat b div 16), hexDigit (unat b mod 16)]) bs)"

definition hashKey :: "bytes \<Rightarrow> string" where
  "hashKey key = take 32 (hexString (sha3_512 key))"

text \<open>
  \<^verbatim>\<open>NewKeyManager\<close>. \<open>openErr\<close> is what \<^verbatim>\<open>os.OpenFile\<close> returns for the audit log:
  \<open>None\<close> when the file opens, the text of the error otherwise. The entry keeps the
  slice of the caller; the memory is read for the hash of the key and is not written.
  The readings of the clock within one call are modelled by one value \<open>now\<close>. Go's
  \<^verbatim>\<open>int\<close> has 64 bits; the version counter is modelled as an integer, since it
  wraps around after \<open>2 ^ 63\<close> rotations only.
\<close>

definition NewKeyManager ::
  "string option \<Rightarrow> heap \<Rightarrow> slice \<Rightarrow> KeyRotationPolicy \<Rightarrow> time \<Rightarrow> km_error + KeyManager" where
  "NewKeyManager openErr h initialKey pol now =
     (if Len initialKey \<noteq> KeySize
      then Inl (InvalidInitialKeySize KeySize (Len initialKey))
      else case openErr of
        Some err \<Rightarrow> Inl (AuditLogFailed err)
      | None \<Rightarrow>
       (let initialMetadata =
              \<lparr>ID = ''key_'' @ decimal_int 1, Version = 1, State = KeyStateActive,
               CreatedAt = now, ActivatedAt = now, RotatedAt = 0, ArchivedAt = 0,
               DestroyedAt = 0, KeyHash = hashKey (sliceBytes h initialKey),
               EncryptionCount = 0, DecryptionCount = 0\<rparr>;
            keyEntry = \<lparr>Metadata = initialMetadata, Material = Some initialKey\<rparr>
        in Inr \<lparr>activeKey = Some 1, history = Map.empty(1 \<mapsto> keyEntry), currentVersion = 1,
                policy = pol, lastRotationTime = now\<rparr>))"

text \<open>
  \<^verbatim>\<open>securelyEraseKey\<close> writes through \<^verbatim>\<open>entry.Material\<close> into the memory, byte by
  byte, and then sets the slice of the entry to nil. \<open>clock p\<close> is the reading of
  \<^verbatim>\<open>time.Now().UnixNano()\<close> in pass \<open>p\<close>. The length of a nil slice is 0.
\<close>

definition erasePattern :: "nat \<Rightarrow> int \<Rightarrow> bytes" where
  "erasePattern pass nanos =
     sha3_256 (ascii (''pass_'' @ decimal_nat pass @ ''_'' @ decimal_int nanos))"

definition erasePass :: "(nat \<Rightarrow> int) \<Rightarrow> slice \<Rightarrow> heap \<Rightarrow> nat \<Rightarrow> heap" where
  "erasePass clock material h pass =
     (let pattern = erasePattern pass (clock pass)
      in foldl (\<lambda>h i. h(Data material + i :=
                         h (Data material + i) XOR pattern ! (i mod length pattern)))
               h [0..<Len material])"

definition securelyEraseKey ::
  "KeyRotationPolicy \<Rightarrow> (nat \<Rightarrow> int) \<Rightarrow> KeyEntry \<Rightarrow> heap \<Rightarrow> heap \<times> KeyEntry" where
  "securelyEraseKey pol clock entry h =
     (let material = (case Material entry of None \<Rightarrow> \<lparr>Data = 0, Len = 0\<rparr> | Some m \<Rightarrow> m);
          method = DestructionMethod pol;
          passes = DestructionPasses pol;
          h' =
            (if method = ''zero''
             then foldl (\<lambda>h i. h(Data material + i := 0)) h [0..<Len material]
             else if method = ''random'' \<or> method = ''overwrite''
             then foldl (erasePass clock material) h [0..<nat passes]
             else h)
      in (h', entry\<lparr>Material := None\<rparr>))"

text \<open>
  \<^verbatim>\<open>archiveOldKeys\<close> ranges twice over the map \<^verbatim>\<open>history\<close>; Go leaves the order
  of the iteration open. \<open>order\<close> lists the versions as the second loop meets them,
  and \<open>clock v p\<close> is the reading of the clock in pass \<open>p\<close> of the erasure of
  version \<open>v\<close>.
\<close>

definition isLive :: "KeyEntry \<Rightarrow> bool" where
  "isLive entry = (State (Metadata entry) = KeyStateActive \<or> State (Metadata entry) = KeyStateRotated)"

definition activeCount :: "(int \<rightharpoonup> KeyEntry) \<Rightarrow> int list \<Rightarrow> int" where
  "activeCount hist order =
     int (length (filter (\<lambda>v. case hist v of None \<Rightarrow> False | Some e \<Rightarrow> isLive e) order))"

definition archiveEntry ::
  "KeyRotationPolicy \<Rightarrow> (nat \<Rightarrow> int) \<Rightarrow> time \<Rightarrow> KeyEntry \<Rightarrow> heap \<Rightarrow> heap \<times> KeyEntry" where
  "archiveEntry pol clock now entry h =
     securelyEraseKey pol clock
       (entry\<lparr>Metadata := (Metadata entry)\<lparr>State := KeyStateArchived, ArchivedAt := now\<rparr>\<rparr>) h"

fun archiveLoop ::
  "KeyRotationPolicy \<Rightarrow> (int \<Rightarrow> nat \<Rightarrow> int) \<Rightarrow> time \<Rightarrow> heap \<Rightarrow> (int \<rightharpoonup> KeyEntry) \<Rightarrow> int \<Rightarrow> int list
     \<Rightarrow> heap \<times> (int \<rightharpoonup> KeyEntry)" where
  "archiveLoop pol clock now h hist keysToArchive [] = (h, hist)"
| "archiveLoop pol clock now h hist keysToArchive (version # rest) =
     (if keysToArchive \<le> 0 then (h, hist)
      else case hist version of
        None \<Rightarrow> archiveLoop pol clock now h hist keysToArchive rest
      | Some entry \<Rightarrow>
         (if State (Metadata entry) = KeyStateRotated
          then (case archiveEntry pol (clock version) now entry h of
                  (h', entry') \<Rightarrow>
                    archiveLoop pol clock now h' (hist(version \<mapsto> entry'))
                      (keysToArchive - 1) rest)
          else archiveLoop pol clock now h hist keysToArchive rest))"

definition archiveOldKeys ::
  "(int \<Rightarrow> nat \<Rightarrow> int) \<Rightarrow> time \<Rightarrow> int list \<Rightarrow> heap \<times> KeyManager \<Rightarrow> heap \<times> KeyManager" where
  "archiveOldKeys clock now order s =
     (case s of (h, km) \<Rightarrow>
       (let count = activeCount (history km) order
        in if count > RetentionCycles (policy km)
           then (case archiveLoop (policy km) clock now h (history km)
                         (count - RetentionCycles (policy km)) order of
                   (h', hist') \<Rightarrow> (h', km\<lparr>history := hist'\<rparr>))
           else (h, km)))"

text \<open>
  \<^verbatim>\<open>RotateKey\<close>. The new entry keeps the slice of the caller. The check of the
  minimum age compares \<^verbatim>\<open>time.Since(lastRotationTime).Hours()\<close> with
  \<^verbatim>\<open>MinKeyAgeDays*24\<close>; an hour is 3600000000000 nanoseconds, and the rounding of
  the floating-point division is not modelled.
\<close>

definition RotateKey ::
  "slice \<Rightarrow> time \<Rightarrow> (int \<Rightarrow> nat \<Rightarrow> int) \<Rightarrow> int list \<Rightarrow> heap \<times> KeyManager
     \<Rightarrow> km_error + heap \<times> KeyManager" where
  "RotateKey newKey now clock order s =
     (case s of (h, km) \<Rightarrow>
      if Len newKey \<noteq> KeySize then Inl (InvalidNewKeySize KeySize (Len newKey))
      else if now - lastRotationTime km < MinKeyAgeDays (policy km) * 24 * 3600000000000
      then Inl (MinimumAgeNotReached (MinKeyAgeDays (policy km)))
      else
       (let h1 = (case activeKey km of
                    None \<Rightarrow> history km
                  | Some a \<Rightarrow>
                     (case history km a of
                        None \<Rightarrow> history km
                      | Some old \<Rightarrow>
                          (history km)(a \<mapsto> old\<lparr>Metadata := (Metadata old)
                                 \<lparr>State := KeyStateRotated, RotatedAt := now\<rparr>\<rparr>)));
            v = currentVersion km + 1;
            newMetadata =
              \<lparr>ID = ''key_'' @ decimal_int v, Version = v, State = KeyStateActive,
               CreatedAt = now, ActivatedAt = now, RotatedAt = 0, ArchivedAt = 0,
               DestroyedAt = 0, KeyHash = hashKey (sliceBytes h newKey),
               EncryptionCount = 0, DecryptionCount = 0\<rparr>;
            newEntry = \<lparr>Metadata = newMetadata, Material = Some newKey\<rparr>;
            km1 = km\<lparr>activeKey := Some v, history := h1(v \<mapsto> newEntry),
                     currentVersion := v, lastRotationTime := now\<rparr>
        in Inr (archiveOldKeys clock now order (h, km1))))"






section \<open>Key lifecycle (key-lifecycle.go)\<close>

datatype KeyLifecycleState =
    StateGenerated | StateActivated | StateRotating | StateDeactivated | StateDestroyed




text \<open>The shape of a Keccak state: five planes of five lanes.\<close>

definition shape25 :: "plane list \<Rightarrow> bool" where
  "shape25 a = (length a = 5 \<and> list_all (\<lambda>p. length p = 5) a)"





declare decimal_nat.simps [simp del]
declare absorb.simps [simp del]
declare cbcDecrypt.simps [simp del]

section \<open>Lemmas\<close>

subsection \<open>The size of a digest\<close>

lemma length_chop: "length (chop n k xs) = n"
  by (induction n arbitrary: xs) simp_all

lemma length_bytes_of_lane: "length (bytes_of_lane w) = 8"
  by (simp add: bytes_of_lane_def length_chop)

lemma length_plane_xor: "length (plane_xor p q) = min (length p) (length q)"
  by (induction p q rule: plane_xor.induct) simp_all

lemma length_plane_andnot: "length (plane_andnot p q) = min (length p) (length q)"
  by (induction p q rule: plane_andnot.induct) simp_all

lemma length_rot1: "p \<noteq> [] \<Longrightarrow> length (rot1 p) = length p"
  by (cases p) (simp_all add: rot1_def)

lemma length_chi_plane: "length b = 5 \<Longrightarrow> length (chi_plane b) = 5"
proof -
  assume b: "length b = 5"
  then have ne: "b \<noteq> []" by auto
  then have "rot1 b \<noteq> []" by (cases b) (simp_all add: rot1_def)
  then show ?thesis
    using b ne by (simp add: chi_plane_def length_plane_xor length_plane_andnot length_rot1)
qed

lemma shape25_rho_pi: "shape25 (rho_pi a)"
  by (simp add: shape25_def rho_pi_def rho_pi_flat_def rho_pi_table_def)

lemma shape25_chi: "shape25 a \<Longrightarrow> shape25 (chi a)"
  by (simp add: shape25_def chi_def list_all_iff length_chi_plane)

lemma shape25_iota: "shape25 a \<Longrightarrow> shape25 (iota rc a)"
  by (cases a; cases "hd a") (auto simp: shape25_def iota_def)

lemma shape25_round: "shape25 (keccak_round a rc)"
  by (simp add: keccak_round_def shape25_iota shape25_chi shape25_rho_pi)

lemma shape25_foldl_round: "rcs \<noteq> [] \<Longrightarrow> shape25 (foldl keccak_round a rcs)"
  by (cases rcs rule: rev_cases) (simp_all add: shape25_round)

lemma shape25_keccak_f: "shape25 (keccak_f a)"
  unfolding keccak_f_def by (rule shape25_foldl_round) (simp add: keccak_RC_def)

lemma shape25_absorb:
  "shape25 st \<or> (0 < rate \<and> rate \<le> length bs) \<Longrightarrow> shape25 (absorb rate st bs)"
proof (induction rate st bs rule: absorb.induct)
  case (1 rate st bs)
  show ?case
  proof (cases "rate = 0 \<or> length bs < rate")
    case True
    then show ?thesis using "1.prems" by (auto simp: absorb.simps)
  next
    case False
    then have "absorb rate st bs = absorb rate (absorb_block st (take rate bs)) (drop rate bs)"
      by (subst absorb.simps) simp
    moreover have "shape25 (absorb rate (absorb_block st (take rate bs)) (drop rate bs))"
      using False by (intro "1.IH") (simp_all add: absorb_block_def shape25_keccak_f)
    ultimately show ?thesis by simp
  qed
qed

lemma length_sha3_pad: "0 < rate \<Longrightarrow> rate \<le> length (sha3_pad rate m)"
proof -
  assume r: "0 < rate"
  let ?x = "length m mod rate"
  have x: "?x \<le> length m" "?x < rate" using r by simp_all
  have "length (sha3_pad rate m) = length m + (rate - ?x)"
  proof (cases "rate - ?x = 1")
    case True
    then show ?thesis by (simp add: sha3_pad_def)
  next
    case False
    then have "2 \<le> rate - ?x" using x by linarith
    then show ?thesis using False by (simp add: sha3_pad_def)
  qed
  then show ?thesis using x by linarith
qed

lemma length_concat_const:
  "list_all (\<lambda>p. length p = n) xs \<Longrightarrow> length (concat xs) = n * length xs"
  by (induction xs) simp_all

lemma length_concat_bytes_of_lane:
  "length (concat (map bytes_of_lane ls)) = 8 * length ls"
  by (induction ls) (simp_all add: length_bytes_of_lane)

lemma length_squeeze:
  "shape25 st \<Longrightarrow> outlen \<le> 200 \<Longrightarrow> length (squeeze outlen st) = outlen"
  by (simp add: squeeze_def shape25_def length_concat_bytes_of_lane
      length_concat_const [where n = 5])

lemma length_sha3: "0 < rate \<Longrightarrow> outlen \<le> 200 \<Longrightarrow> length (sha3 rate outlen m) = outlen"
  by (simp add: sha3_def length_squeeze shape25_absorb length_sha3_pad)

lemma length_sha3_512 [simp]: "length (sha3_512 m) = 64"
  by (simp add: sha3_512_def length_sha3)

lemma length_sha3_256 [simp]: "length (sha3_256 m) = 32"
  by (simp add: sha3_256_def length_sha3)

subsection \<open>Tag comparison\<close>

lemma byte_xor_eq_0: "(c XOR t = (0::byte)) = (c = t)"
  by (auto simp: bit_eq_iff bit_xor_iff)

lemma foldl_or_xor_zero:
  "length cs = length ts \<Longrightarrow>
   (foldl (\<lambda>result (c, t). result OR (c XOR t)) acc (zip cs ts) = (0::byte))
     = (acc = 0 \<and> cs = ts)"
  by (induction cs ts arbitrary: acc rule: list_induct2)
     (auto simp: or_eq_0_iff byte_xor_eq_0)

lemma length_ComputeHMAC [simp]: "length (ComputeHMAC key data) = 64"
  by (simp add: ComputeHMAC_def Let_def)

lemma VerifyHMAC_iff: "VerifyHMAC key data tag = (tag = ComputeHMAC key data)"
  by (auto simp: VerifyHMAC_def Let_def foldl_or_xor_zero)

subsection \<open>Round keys\<close>

lemma DeriveKeys_Inr:
  "length masterKey = 32 \<Longrightarrow>
   DeriveKeys masterKey =
     Inr (map (\<lambda>i. take 16 (sha3_512 (masterKey @ ascii (''key_'' @ decimal_nat i)))) [0..<11])"
  by (simp add: DeriveKeys_def KeySize_def)

lemma decimal_nat_10: "decimal_nat 10 = ''10''"
  by (simp add: decimal_nat.simps)

lemma DeriveKeys_last:
  "length masterKey = 32 \<Longrightarrow> DeriveKeys masterKey = Inr keys \<Longrightarrow>
   keys ! (length keys - 1) = take 16 (sha3_512 (masterKey @ ascii ''key_10''))"
  by (auto simp: DeriveKeys_Inr decimal_nat_10)

subsection \<open>Padding and the CBC loops\<close>

lemma padPlaintext_aligned:
  "length plaintext mod 64 = 0 \<Longrightarrow> padPlaintext plaintext = plaintext"
proof -
  assume "length plaintext mod 64 = 0"
  then obtain k where k: "length plaintext = 64 * k" by (auto simp: mod_eq_0_iff_dvd)
  have "(64 * k + 63) div 64 = k" by simp
  then show ?thesis
    by (simp add: padPlaintext_def BlockSize_def k Let_def)
qed

lemma cbcDecrypt_Nil: "cbcDecrypt keys iv [] = Inr []"
  by (simp add: cbcDecrypt.simps)

lemma cbcDecrypt_short:
  "ciphertext \<noteq> [] \<Longrightarrow> length ciphertext < 64 \<Longrightarrow> cbcDecrypt keys iv ciphertext = Inl Panic"
  by (subst cbcDecrypt.simps) (simp add: BlockSize_def)

lemma EncryptData_empty:
  "length masterKey = 32 \<Longrightarrow> length nonce = 16 \<Longrightarrow>
   EncryptData rnd [] masterKey (Some nonce) =
     Inr (nonce @ ComputeHMAC (take 16 (sha3_512 (masterKey @ ascii ''key_10''))) nonce)"
  by (simp add: EncryptData_def KeySize_def NonceSize_def DeriveKeys_Inr decimal_nat_10
      padPlaintext_aligned BlockSize_def Let_def)

lemma DecryptData_valid_tag:
  "length masterKey = 32 \<Longrightarrow> length nonce = 16 \<Longrightarrow>
   DecryptData (ciphertext @ nonce
        @ ComputeHMAC (take 16 (sha3_512 (masterKey @ ascii ''key_10''))) (nonce @ ciphertext))
      masterKey =
     (case cbcDecrypt (map (\<lambda>i. take 16 (sha3_512 (masterKey @ ascii (''key_'' @ decimal_nat i))))
                           [0..<11])
             (DeriveIV nonce masterKey) ciphertext of
        Inl err \<Rightarrow> Inl err
      | Inr plaintext \<Rightarrow> removePadding plaintext)"
  by (simp add: DecryptData_def KeySize_def NonceSize_def TagSize_def DeriveKeys_Inr
      decimal_nat_10 VerifyHMAC_iff Let_def)

lemma DecryptData_empty_frame:
  "length masterKey = 32 \<Longrightarrow> length nonce = 16 \<Longrightarrow>
   DecryptData (nonce @ ComputeHMAC (take 16 (sha3_512 (masterKey @ ascii ''key_10''))) nonce)
      masterKey = Inl EmptyPlaintext"
  using DecryptData_valid_tag [of masterKey nonce "[]"]
  by (simp add: cbcDecrypt_Nil removePadding_def)

lemma DecryptData_one_byte_frame:
  "length masterKey = 32 \<Longrightarrow> length nonce = 16 \<Longrightarrow>
   DecryptData (c # nonce
        @ ComputeHMAC (take 16 (sha3_512 (masterKey @ ascii ''key_10''))) (nonce @ [c]))
      masterKey = Inl Panic"
  using DecryptData_valid_tag [of masterKey nonce "[c]"]
  by (simp add: cbcDecrypt_short)

lemma removePadding_not_auth: "removePadding p \<noteq> Inl AuthTagFailed"
  by (simp add: removePadding_def Let_def)

lemma removePadding_not_short: "removePadding p \<noteq> Inl (DataTooShort n m)"
  by (simp add: removePadding_def Let_def)

lemma cbcDecrypt_errors: "cbcDecrypt keys iv ct = Inl e \<Longrightarrow> e = Panic"
proof (induction keys iv ct rule: cbcDecrypt.induct)
  case (1 keys iv ciphertext)
  show ?case
  proof (cases "ciphertext = [] \<or> length ciphertext < BlockSize")
    case True
    then show ?thesis using "1.prems" by (auto simp: cbcDecrypt.simps split: if_splits)
  next
    case False
    then show ?thesis
      using "1.prems" "1.IH"
      by (subst (asm) cbcDecrypt.simps) (auto simp: Let_def split: sum.splits)
  qed
qed

lemma DecryptData_cases:
  assumes "length masterKey = 32"
  shows "DecryptData F masterKey =
     (if length F < 80 then Inl (DataTooShort 80 (length F))
      else if drop (length F - 64) F \<noteq>
              ComputeHMAC (take 16 (sha3_512 (masterKey @ ascii ''key_10'')))
                (take 16 (drop (length F - 80) F) @ take (length F - 80) F)
      then Inl AuthTagFailed
      else case cbcDecrypt (map (\<lambda>i. take 16 (sha3_512 (masterKey @ ascii (''key_'' @ decimal_nat i))))
                           [0..<11])
             (DeriveIV (take 16 (drop (length F - 80) F)) masterKey) (take (length F - 80) F) of
        Inl err \<Rightarrow> Inl err
      | Inr plaintext \<Rightarrow> removePadding plaintext)"
proof -
  have "80 \<le> length F \<Longrightarrow> length F - 80 + 16 = length F - 64" by simp
  then show ?thesis
    using assms
    by (simp add: DecryptData_def KeySize_def NonceSize_def TagSize_def DeriveKeys_Inr
        decimal_nat_10 VerifyHMAC_iff Let_def)
qed

subsection \<open>The byte permutation\<close>

lemma find_append_eq:
  "find P (xs @ ys) = (case find P xs of None \<Rightarrow> find P ys | Some x \<Rightarrow> Some x)"
  by (induction xs) simp_all

lemma length_foldl_update:
  "length (foldl (\<lambda>r i. r[f i := g i]) r xs) = length r"
  by (induction xs arbitrary: r) simp_all

lemma nth_foldl_update:
  "k < length r \<Longrightarrow> distinct xs \<Longrightarrow> inj_on f (set xs) \<Longrightarrow>
   foldl (\<lambda>r i. r[f i := g i]) r xs ! k =
     (case find (\<lambda>i. f i = k) xs of None \<Rightarrow> r ! k | Some i \<Rightarrow> g i)"
proof (induction xs rule: rev_induct)
  case Nil
  then show ?case by simp
next
  case (snoc x xs)
  let ?r = "foldl (\<lambda>r i. r[f i := g i]) r xs"
  have IH: "?r ! k = (case find (\<lambda>i. f i = k) xs of None \<Rightarrow> r ! k | Some i \<Rightarrow> g i)"
    using snoc by (simp add: inj_on_def)
  have len: "k < length ?r"
    using snoc.prems by (simp add: length_foldl_update)
  show ?case
  proof (cases "f x = k")
    case True
    have "\<forall>i \<in> set xs. f i \<noteq> k"
      using snoc.prems True by (auto simp: inj_on_def)
    then have "find (\<lambda>i. f i = k) xs = None"
      by (simp add: find_None_iff)
    then show ?thesis
      using True len by (simp add: find_append_eq)
  next
    case False
    then show ?thesis
      using IH by (simp add: find_append_eq split: option.split)
  qed
qed

lemma length_foldl_find_update:
  "length (foldl (\<lambda>r i. case find (P i) js of None \<Rightarrow> r | Some j \<Rightarrow> r[i := h j]) r xs) = length r"
  by (induction xs arbitrary: r) (simp_all split: option.split)

lemma nth_foldl_find_update:
  "k < length r \<Longrightarrow> distinct xs \<Longrightarrow>
   foldl (\<lambda>r i. case find (P i) js of None \<Rightarrow> r | Some j \<Rightarrow> r[i := h j]) r xs ! k =
     (if k \<in> set xs then (case find (P k) js of None \<Rightarrow> r ! k | Some j \<Rightarrow> h j) else r ! k)"
proof (induction xs rule: rev_induct)
  case Nil
  then show ?case by simp
next
  case (snoc x xs)
  let ?r = "foldl (\<lambda>r i. case find (P i) js of None \<Rightarrow> r | Some j \<Rightarrow> r[i := h j]) r xs"
  have IH: "?r ! k = (if k \<in> set xs then (case find (P k) js of None \<Rightarrow> r ! k | Some j \<Rightarrow> h j)
                      else r ! k)"
    using snoc by simp
  have len: "k < length ?r"
    using snoc.prems by (simp add: length_foldl_find_update)
  show ?case
  proof (cases "x = k")
    case True
    then have "k \<notin> set xs" using snoc.prems by simp
    then show ?thesis
      using True IH len by (simp split: option.split)
  next
    case False
    then show ?thesis
      using IH by (simp split: option.split)
  qed
qed

lemma perm_index_inverse:
  assumes "i < 64"
  shows "(13 * ((i * 5 + 7) mod 64) + 37) mod 64 = (i::nat)"
proof -
  have "(13 * ((i * 5 + 7) mod 64) + 37) mod 64 = ((13 * ((i * 5 + 7) mod 64)) mod 64 + 37) mod 64"
    by (simp only: mod_add_left_eq)
  also have "\<dots> = ((13 * (i * 5 + 7)) mod 64 + 37) mod 64"
    by (simp only: mod_mult_right_eq)
  also have "\<dots> = (13 * (i * 5 + 7) + 37) mod 64"
    by (simp only: mod_add_left_eq)
  also have "13 * (i * 5 + 7) + 37 = i + 64 * (i + 2)"
    by simp
  also have "(i + 64 * (i + 2)) mod 64 = i"
    using assms by (simp only: mod_mult_self2 mod_less)
  finally show ?thesis .
qed

lemma perm_index_inj: "inj_on (\<lambda>i::nat. (i * 5 + 7) mod 64) {0..<64}"
proof (rule inj_onI)
  fix i j :: nat
  assume "i \<in> {0..<64}" "j \<in> {0..<64}" and eq: "(i * 5 + 7) mod 64 = (j * 5 + 7) mod 64"
  then have "i < 64" "j < 64" by simp_all
  then have "i = (13 * ((i * 5 + 7) mod 64) + 37) mod 64"
        and "j = (13 * ((j * 5 + 7) mod 64) + 37) mod 64"
    by (simp_all only: perm_index_inverse)
  then show "i = j" using eq by simp
qed


lemma perm_index_forward:
  assumes "k < 64"
  shows "(((13 * k + 37) mod 64) * 5 + 7) mod 64 = (k::nat)"
proof -
  have "(((13 * k + 37) mod 64) * 5 + 7) mod 64 = ((((13 * k + 37) mod 64) * 5) mod 64 + 7) mod 64"
    by (simp only: mod_add_left_eq)
  also have "\<dots> = (((13 * k + 37) * 5) mod 64 + 7) mod 64"
    by (simp only: mod_mult_left_eq)
  also have "\<dots> = ((13 * k + 37) * 5 + 7) mod 64"
    by (simp only: mod_add_left_eq)
  also have "(13 * k + 37) * 5 + 7 = k + 64 * (k + 3)"
    by simp
  also have "(k + 64 * (k + 3)) mod 64 = k"
    using assms by (simp only: mod_mult_self2 mod_less)
  finally show ?thesis .
qed

lemma find_unique:
  "x \<in> set xs \<Longrightarrow> P x \<Longrightarrow> (\<And>y. y \<in> set xs \<Longrightarrow> P y \<Longrightarrow> y = x) \<Longrightarrow> find P xs = Some x"
proof (induction xs)
  case Nil
  then show ?case by simp
next
  case (Cons a xs)
  show ?case
  proof (cases "P a")
    case True
    then have "a = x" using Cons.prems(3) [of a] by simp
    then show ?thesis using True by simp
  next
    case False
    then have "x \<in> set xs" using Cons.prems(1,2) by auto
    moreover have "\<And>y. y \<in> set xs \<Longrightarrow> P y \<Longrightarrow> y = x"
      using Cons.prems(3) by simp
    ultimately have "find P xs = Some x"
      using Cons.IH Cons.prems(2) by blast
    then show ?thesis using False by simp
  qed
qed

lemma length_PermuteBlock: "length (PermuteBlock block) = length block"
  by (simp add: PermuteBlock_def length_foldl_update)

lemma PermuteBlock_nth:
  assumes "length block = 64" "k < 64"
  shows "PermuteBlock block ! k = block ! ((13 * k + 37) mod 64)"
proof -
  have "find (\<lambda>i. (i * 5 + 7) mod 64 = k) [0..<64] = Some ((13 * k + 37) mod 64)"
  proof (rule find_unique)
    show "(13 * k + 37) mod 64 \<in> set [0..<64]" by simp
    show "((13 * k + 37) mod 64 * 5 + 7) mod 64 = k"
      using assms(2) by (rule perm_index_forward)
  next
    fix y
    assume "y \<in> set [0..<64]" "(y * 5 + 7) mod 64 = k"
    then have "y < 64" "(13 * ((y * 5 + 7) mod 64) + 37) mod 64 = (13 * k + 37) mod 64"
      by simp_all
    then show "y = (13 * k + 37) mod 64"
      by (simp only: perm_index_inverse)
  qed
  moreover have "PermuteBlock block ! k =
        (case find (\<lambda>i. (i * 5 + 7) mod 64 = k) [0..<64] of
           None \<Rightarrow> replicate 64 0 ! k | Some i \<Rightarrow> block ! i)"
    unfolding PermuteBlock_def assms(1)
    by (rule nth_foldl_update) (use assms(2) perm_index_inj in simp_all)
  ultimately show ?thesis by simp
qed

lemma byte_xor_one_neq: "b XOR 1 \<noteq> (b::byte)"
proof
  assume "b XOR 1 = b"
  then have "b XOR (b XOR 1) = b XOR b" by simp
  then show False by (simp add: bit.xor_left_self)
qed

lemma flipped_tag_differs: "length T = 64 \<Longrightarrow> map (\<lambda>b. b XOR 1) T \<noteq> (T::bytes)"
  by (cases T) (auto simp: byte_xor_one_neq)

lemma ReversePermuteBlock_eq:
  assumes "length block = 64"
  shows "ReversePermuteBlock block = PermuteBlock block"
proof (rule nth_equalityI)
  show "length (ReversePermuteBlock block) = length (PermuteBlock block)"
    by (simp add: ReversePermuteBlock_def PermuteBlock_def length_foldl_update
        length_foldl_find_update)
next
  fix k
  assume "k < length (ReversePermuteBlock block)"
  then have k: "k < 64"
    using assms by (simp add: ReversePermuteBlock_def length_foldl_find_update)
  have "PermuteBlock block ! k =
        (case find (\<lambda>i. (i * 5 + 7) mod 64 = k) [0..<64] of
           None \<Rightarrow> replicate 64 0 ! k | Some i \<Rightarrow> block ! i)"
    unfolding PermuteBlock_def assms
    by (rule nth_foldl_update) (use k perm_index_inj in simp_all)
  moreover have "ReversePermuteBlock block ! k =
        (case find (\<lambda>j. (j * 5 + 7) mod 64 = k) [0..<64] of
           None \<Rightarrow> replicate 64 0 ! k | Some j \<Rightarrow> block ! j)"
    unfolding ReversePermuteBlock_def assms
    using k by (simp add: nth_foldl_find_update)
  ultimately show "ReversePermuteBlock block ! k = PermuteBlock block ! k"
    by simp
qed

subsection \<open>One byte through the block decryption\<close>

lemma length_SubstituteBlock: "length (SubstituteBlock b) = length b"
  by (simp add: SubstituteBlock_def)

lemma length_MixBlock: "length (MixBlock b k) = length b"
  by (simp add: MixBlock_def)

lemma length_decRound: "length b = 64 \<Longrightarrow> length (decRound keys b r) = 64"
  by (simp add: decRound_def ReverseSubstituteBlock_def length_SubstituteBlock
      ReversePermuteBlock_eq length_MixBlock length_PermuteBlock)

lemma decRound_nth:
  assumes "length b = 64" and "k < 64"
  shows "decRound keys b r ! k =
           sha3_256 [b ! ((13 * k + 37) mod 64)
                     XOR keys ! (r mod length keys)
                           ! ((13 * k + 37) mod 64 mod length (keys ! (r mod length keys)))] ! 0"
proof -
  let ?m = "MixBlock b (expandKey (keys ! (r mod length keys)))"
  have len: "length ?m = 64" using assms by (simp add: length_MixBlock)
  have "decRound keys b r ! k = sha3_256 [PermuteBlock ?m ! k] ! 0"
    using assms len
    by (simp add: decRound_def ReverseSubstituteBlock_def SubstituteBlock_def
        ReversePermuteBlock_eq length_PermuteBlock)
  also have "PermuteBlock ?m ! k = ?m ! ((13 * k + 37) mod 64)"
    using len assms(2) by (rule PermuteBlock_nth)
  also have "\<dots> = b ! ((13 * k + 37) mod 64)
                     XOR keys ! (r mod length keys)
                           ! ((13 * k + 37) mod 64 mod length (keys ! (r mod length keys)))"
    using assms by (simp add: MixBlock_def expandKey_def BlockSize_def)
  finally show ?thesis .
qed

lemma length_xorLastKey: "length b = 64 \<Longrightarrow> length (xorLastKey b ek) = 64"
  by (simp add: xorLastKey_def BlockSize_def)

lemma xorLastKey_nth:
  "length b = 64 \<Longrightarrow> k < 64 \<Longrightarrow>
   xorLastKey b (expandKey rk) ! k = b ! k XOR rk ! (k mod length rk)"
  by (simp add: xorLastKey_def expandKey_def BlockSize_def nth_append)

lemma length_foldl_decRound:
  "length b = 64 \<Longrightarrow> length (foldl (decRound keys) b rs) = 64"
  by (induction rs arbitrary: b) (simp_all add: length_decRound)

lemma length_DecryptBlock: "length c = 64 \<Longrightarrow> length (DecryptBlock c keys) = 64"
  by (simp add: DecryptBlock_def length_foldl_decRound length_xorLastKey)

lemma removePadding_bad_length:
  "plaintext \<noteq> [] \<Longrightarrow> unat (plaintext ! (length plaintext - 1)) = p \<Longrightarrow> 64 < p \<or> p = 0 \<Longrightarrow>
   removePadding plaintext = Inl (InvalidPadding p)"
  by (auto simp: removePadding_def BlockSize_def Let_def)

lemma cbcDecrypt_one_block:
  "length c = 64 \<Longrightarrow> cbcDecrypt keys iv c = Inr (map2 (XOR) (DecryptBlock c keys) iv)"
  by (subst cbcDecrypt.simps) (auto simp: BlockSize_def cbcDecrypt_Nil Let_def)

lemma rounds_desc: "rev [0..<Rounds] = [15, 14, 13, 12, 11, 10, 9, 8, 7, 6, 5, 4, 3, 2, 1, 0]"
  by (simp add: Rounds_def upt_conv_Cons)

lemma upt_11: "[0..<11] = [0, 1, 2, 3, 4, 5, 6, 7, 8, 9, 10]"
  by (simp add: upt_conv_Cons)

subsection \<open>Writes to the memory\<close>

lemma foldl_heap_update:
  "foldl (\<lambda>h i. h(p + i := f i (h (p + i)))) h [0..<n] a =
     (if p \<le> a \<and> a < p + n then f (a - p) (h a) else h a)"
proof (induction n arbitrary: a)
  case 0
  show ?case by auto
next
  case (Suc n)
  define F where "F = (\<lambda>(h::nat \<Rightarrow> 'a) i. h(p + i := f i (h (p + i))))"
  define g where "g = foldl F h [0..<n]"
  have IH: "g b = (if p \<le> b \<and> b < p + n then f (b - p) (h b) else h b)" for b
    unfolding g_def F_def by (rule Suc.IH)
  have "foldl F h [0..<Suc n] = F g n"
    by (simp add: g_def)
  then have "foldl F h [0..<Suc n] a = (if a = p + n then f n (g (p + n)) else g a)"
    by (simp add: F_def)
  also have "\<dots> = (if p \<le> a \<and> a < p + Suc n then f (a - p) (h a) else h a)"
    by (auto simp: IH)
  finally show ?case unfolding F_def .
qed

lemma foldl_heap_zero:
  "foldl (\<lambda>h i. h(p + i := 0)) h [0..<n] a = (if p \<le> a \<and> a < p + n then 0 else h a)"
  using foldl_heap_update [of p "\<lambda>i b. 0" h n a] by simp



lemma sliceAddrs_empty: "sliceAddrs \<lparr>Data = 0, Len = 0\<rparr> = {}"
  by (simp add: sliceAddrs_def)






subsection \<open>The retention sweep\<close>






declare archiveLoop.simps(2) [simp del]



subsection \<open>The sweep in a key manager\<close>






subsection \<open>The invariant of the key manager\<close>




















subsection \<open>Counting the live versions\<close>






subsection \<open>Erasure\<close>

lemma sliceBytes_eqI:
  "(\<And>i. i < Len s \<Longrightarrow> h (Data s + i) = f i) \<Longrightarrow> sliceBytes h s = map f [0..<Len s]"
  by (simp add: sliceBytes_def)








lemma rotation_erases_shared_slice:
  "(case NewKeyManager None (\<lambda>a. of_nat (a + 1)) \<lparr>Data = 0, Len = 32\<rparr>
           (DefaultKeyRotationPolicy\<lparr>RetentionCycles := 1, DestructionMethod := ''zero''\<rparr>) 0 of
      Inl err \<Rightarrow> False
    | Inr km \<Rightarrow>
       (case RotateKey \<lparr>Data = 0, Len = 32\<rparr> 2592000000000000
               (\<lambda>v p. 2592000000000000) [1, 2] (\<lambda>a. of_nat (a + 1), km) of
          Inl err \<Rightarrow> False
        | Inr (h', km') \<Rightarrow>
           (case history km' 2 of
              None \<Rightarrow> False
            | Some e \<Rightarrow> State (Metadata e) = KeyStateActive
                        \<and> Material e = Some \<lparr>Data = 0, Len = 32\<rparr>
                        \<and> sliceBytes h' \<lparr>Data = 0, Len = 32\<rparr> = replicate 32 0)))"
proof -
  have "sliceBytes (foldl (\<lambda>h i. h(i := 0)) (\<lambda>a. of_nat (a + 1)) [0..<32]) \<lparr>Data = 0, Len = 32\<rparr>
          = map (\<lambda>i. 0 :: byte) [0..<Len \<lparr>Data = 0, Len = 32\<rparr>]"
    using foldl_heap_zero [of 0 "\<lambda>a. of_nat (a + 1) :: byte" 32]
    by (intro sliceBytes_eqI) simp
  then show ?thesis
    by (simp add: NewKeyManager_def RotateKey_def archiveOldKeys_def activeCount_def isLive_def
      archiveLoop.simps archiveEntry_def securelyEraseKey_def DefaultKeyRotationPolicy_def
      KeySize_def Let_def split_beta map_replicate_trivial)
qed

subsection \<open>Evaluating a digest\<close>

text \<open>
  The equations that compute Keccak-f on a state of constant bits by rewriting, and the
  definitions that lead from the bytes of a message to that state and back.
\<close>

lemma lane_xor_eval:
  "lane_xor (True # as) (True # bs) = False # lane_xor as bs"
  "lane_xor (True # as) (False # bs) = True # lane_xor as bs"
  "lane_xor (False # as) (True # bs) = True # lane_xor as bs"
  "lane_xor (False # as) (False # bs) = False # lane_xor as bs"
  "lane_xor [] ys = []"
  "lane_xor (x # xs) [] = []"
  by simp_all

lemma lane_andnot_eval:
  "lane_andnot (True # as) (True # bs) = False # lane_andnot as bs"
  "lane_andnot (True # as) (False # bs) = False # lane_andnot as bs"
  "lane_andnot (False # as) (True # bs) = True # lane_andnot as bs"
  "lane_andnot (False # as) (False # bs) = False # lane_andnot as bs"
  "lane_andnot [] ys = []"
  "lane_andnot (x # xs) [] = []"
  by simp_all

lemma rho_pi_eval:
  "rho_pi [[a0, a1, a2, a3, a4],
           [a5, a6, a7, a8, a9],
           [a10, a11, a12, a13, a14],
           [a15, a16, a17, a18, a19],
           [a20, a21, a22, a23, a24]] =
    [[rotl64 0 a0, rotl64 44 a6, rotl64 43 a12, rotl64 21 a18, rotl64 14 a24],
     [rotl64 28 a3, rotl64 20 a9, rotl64 3 a10, rotl64 45 a16, rotl64 61 a22],
     [rotl64 1 a1, rotl64 6 a7, rotl64 25 a13, rotl64 8 a19, rotl64 18 a20],
     [rotl64 27 a4, rotl64 36 a5, rotl64 10 a11, rotl64 15 a17, rotl64 56 a23],
     [rotl64 62 a2, rotl64 55 a8, rotl64 39 a14, rotl64 41 a15, rotl64 2 a21]]"
  by (simp add: rho_pi_def rho_pi_flat_def rho_pi_table_def)

lemma rc_lane_eval:
  "rc_lane 0x1 =
     [False, False, False, False, False, False, False, False,
      False, False, False, False, False, False, False, False,
      False, False, False, False, False, False, False, False,
      False, False, False, False, False, False, False, False,
      False, False, False, False, False, False, False, False,
      False, False, False, False, False, False, False, False,
      False, False, False, False, False, False, False, False,
      False, False, False, False, False, False, False, True]"
  "rc_lane 0x8082 =
     [False, False, False, False, False, False, False, False,
      False, False, False, False, False, False, False, False,
      False, False, False, False, False, False, False, False,
      False, False, False, False, False, False, False, False,
      False, False, False, False, False, False, False, False,
      False, False, False, False, False, False, False, False,
      True, False, False, False, False, False, False, False,
      True, False, False, False, False, False, True, False]"
  "rc_lane 0x800000000000808a =
     [True, False, False, False, False, False, False, False,
      False, False, False, False, False, False, False, False,
      False, False, False, False, False, False, False, False,
      False, False, False, False, False, False, False, False,
      False, False, False, False, False, False, False, False,
      False, False, False, False, False, False, False, False,
      True, False, False, False, False, False, False, False,
      True, False, False, False, True, False, True, False]"
  "rc_lane 0x8000000080008000 =
     [True, False, False, False, False, False, False, False,
      False, False, False, False, False, False, False, False,
      False, False, False, False, False, False, False, False,
      False, False, False, False, False, False, False, False,
      True, False, False, False, False, False, False, False,
      False, False, False, False, False, False, False, False,
      True, False, False, False, False, False, False, False,
      False, False, False, False, False, False, False, False]"
  "rc_lane 0x808b =
     [False, False, False, False, False, False, False, False,
      False, False, False, False, False, False, False, False,
      False, False, False, False, False, False, False, False,
      False, False, False, False, False, False, False, False,
      False, False, False, False, False, False, False, False,
      False, False, False, False, False, False, False, False,
      True, False, False, False, False, False, False, False,
      True, False, False, False, True, False, True, True]"
  "rc_lane 0x80000001 =
     [False, False, False, False, False, False, False, False,
      False, False, False, False, False, False, False, False,
      False, False, False, False, False, False, False, False,
      False, False, False, False, False, False, False, False,
      True, False, False, False, False, False, False, False,
      False, False, False, False, False, False, False, False,
      False, False, False, False, False, False, False, False,
      False, False, False, False, False, False, False, True]"
  "rc_lane 0x8000000080008081 =
     [True, False, False, False, False, False, False, False,
      False, False, False, False, False, False, False, False,
      False, False, False, False, False, False, False, False,
      False, False, False, False, False, False, False, False,
      True, False, False, False, False, False, False, False,
      False, False, False, False, False, False, False, False,
      True, False, False, False, False, False, False, False,
      True, False, False, False, False, False, False, True]"
  "rc_lane 0x8000000000008009 =
     [True, False, False, False, False, False, False, False,
      False, False, False, False, False, False, False, False,
      False, False, False, False, False, False, False, False,
      False, False, False, False, False, False, False, False,
      False, False, False, False, False, False, False, False,
      False, False, False, False, False, False, False, False,
      True, False, False, False, False, False, False, False,
      False, False, False, False, True, False, False, True]"
  "rc_lane 0x8a =
     [False, False, False, False, False, False, False, False,
      False, False, False, False, False, False, False, False,
      False, False, False, False, False, False, False, False,
      False, False, False, False, False, False, False, False,
      False, False, False, False, False, False, False, False,
      False, False, False, False, False, False, False, False,
      False, False, False, False, False, False, False, False,
      True, False, False, False, True, False, True, False]"
  "rc_lane 0x88 =
     [False, False, False, False, False, False, False, False,
      False, False, False, False, False, False, False, False,
      False, False, False, False, False, False, False, False,
      False, False, False, False, False, False, False, False,
      False, False, False, False, False, False, False, False,
      False, False, False, False, False, False, False, False,
      False, False, False, False, False, False, False, False,
      True, False, False, False, True, False, False, False]"
  "rc_lane 0x80008009 =
     [False, False, False, False, False, False, False, False,
      False, False, False, False, False, False, False, False,
      False, False, False, False, False, False, False, False,
      False, False, False, False, False, False, False, False,
      True, False, False, False, False, False, False, False,
      False, False, False, False, False, False, False, False,
      True, False, False, False, False, False, False, False,
      False, False, False, False, True, False, False, True]"
  "rc_lane 0x8000000a =
     [False, False, False, False, False, False, False, False,
      False, False, False, False, False, False, False, False,
      False, False, False, False, False, False, False, False,
      False, False, False, False, False, False, False, False,
      True, False, False, False, False, False, False, False,
      False, False, False, False, False, False, False, False,
      False, False, False, False, False, False, False, False,
      False, False, False, False, True, False, True, False]"
  "rc_lane 0x8000808b =
     [False, False, False, False, False, False, False, False,
      False, False, False, False, False, False, False, False,
      False, False, False, False, False, False, False, False,
      False, False, False, False, False, False, False, False,
      True, False, False, False, False, False, False, False,
      False, False, False, False, False, False, False, False,
      True, False, False, False, False, False, False, False,
      True, False, False, False, True, False, True, True]"
  "rc_lane 0x800000000000008b =
     [True, False, False, False, False, False, False, False,
      False, False, False, False, False, False, False, False,
      False, False, False, False, False, False, False, False,
      False, False, False, False, False, False, False, False,
      False, False, False, False, False, False, False, False,
      False, False, False, False, False, False, False, False,
      False, False, False, False, False, False, False, False,
      True, False, False, False, True, False, True, True]"
  "rc_lane 0x8000000000008089 =
     [True, False, False, False, False, False, False, False,
      False, False, False, False, False, False, False, False,
      False, False, False, False, False, False, False, False,
      False, False, False, False, False, False, False, False,
      False, False, False, False, False, False, False, False,
      False, False, False, False, False, False, False, False,
      True, False, False, False, False, False, False, False,
      True, False, False, False, True, False, False, True]"
  "rc_lane 0x8000000000008003 =
     [True, False, False, False, False, False, False, False,
      False, False, False, False, False, False, False, False,
      False, False, False, False, False, False, False, False,
      False, False, False, False, False, False, False, False,
      False, False, False, False, False, False, False, False,
      False, False, False, False, False, False, False, False,
      True, False, False, False, False, False, False, False,
      False, False, False, False, False, False, True, True]"
  "rc_lane 0x8000000000008002 =
     [True, False, False, False, False, False, False, False,
      False, False, False, False, False, False, False, False,
      False, False, False, False, False, False, False, False,
      False, False, False, False, False, False, False, False,
      False, False, False, False, False, False, False, False,
      False, False, False, False, False, False, False, False,
      True, False, False, False, False, False, False, False,
      False, False, False, False, False, False, True, False]"
  "rc_lane 0x8000000000000080 =
     [True, False, False, False, False, False, False, False,
      False, False, False, False, False, False, False, False,
      False, False, False, False, False, False, False, False,
      False, False, False, False, False, False, False, False,
      False, False, False, False, False, False, False, False,
      False, False, False, False, False, False, False, False,
      False, False, False, False, False, False, False, False,
      True, False, False, False, False, False, False, False]"
  "rc_lane 0x800a =
     [False, False, False, False, False, False, False, False,
      False, False, False, False, False, False, False, False,
      False, False, False, False, False, False, False, False,
      False, False, False, False, False, False, False, False,
      False, False, False, False, False, False, False, False,
      False, False, False, False, False, False, False, False,
      True, False, False, False, False, False, False, False,
      False, False, False, False, True, False, True, False]"
  "rc_lane 0x800000008000000a =
     [True, False, False, False, False, False, False, False,
      False, False, False, False, False, False, False, False,
      False, False, False, False, False, False, False, False,
      False, False, False, False, False, False, False, False,
      True, False, False, False, False, False, False, False,
      False, False, False, False, False, False, False, False,
      False, False, False, False, False, False, False, False,
      False, False, False, False, True, False, True, False]"
  "rc_lane 0x8000000000008080 =
     [True, False, False, False, False, False, False, False,
      False, False, False, False, False, False, False, False,
      False, False, False, False, False, False, False, False,
      False, False, False, False, False, False, False, False,
      False, False, False, False, False, False, False, False,
      False, False, False, False, False, False, False, False,
      True, False, False, False, False, False, False, False,
      True, False, False, False, False, False, False, False]"
  "rc_lane 0x8000000080008008 =
     [True, False, False, False, False, False, False, False,
      False, False, False, False, False, False, False, False,
      False, False, False, False, False, False, False, False,
      False, False, False, False, False, False, False, False,
      True, False, False, False, False, False, False, False,
      False, False, False, False, False, False, False, False,
      True, False, False, False, False, False, False, False,
      False, False, False, False, True, False, False, False]"
  by (simp_all add: rc_lane_def upt_conv_Cons)

lemma take_drop_eval:
  "drop (numeral v) (x # xs) = drop (pred_numeral v) xs"
  "take (numeral v) (x # xs) = x # take (pred_numeral v) xs"
  "drop 1 (x # xs) = xs"
  "take 1 (x # xs) = [x]"
  "drop 0 ys = ys"
  "take 0 ys = []"
  by (simp_all add: numeral_eq_Suc)

lemma replicate_numeral:
  "replicate (numeral n) x = x # replicate (pred_numeral n) x"
  by (simp add: numeral_eq_Suc)

lemma chop_numeral:
  "chop (numeral n) k xs = take k xs # chop (pred_numeral n) k (drop k xs)"
  by (simp add: numeral_eq_Suc)

lemmas keccak_eval =
  keccak_f_def keccak_RC_def foldl.simps keccak_round_def iota_def rc_lane_eval
  theta_def theta_c_def theta_d_def theta_apply_def rho_pi_eval chi_def chi_plane_def
  rot1_def rotl64_def lane_xor_eval lane_andnot_eval plane_xor.simps plane_andnot.simps
  state_xor.simps list.map list.sel last.simps butlast.simps append.simps append_Nil2
  list.distinct if_True if_False take_drop_eval pred_numeral_simps BitM.simps simp_thms

lemmas sha3_stage1 =
  sha3_def sha3_pad_def absorb.simps absorb_block_def block_state_def lane_of_bytes_def
  byte_bits_def chop_numeral squeeze_def replicate_numeral

lemmas sha3_stage3 = bytes_of_lane_def bits_byte_def chop_numeral

lemma sha3_512_key_0:
  "sha3_512 [0, 0, 0, 0, 0, 0, 0, 0, 0, 0, 0, 0, 0, 0, 0, 0, 0, 0, 0, 0, 0, 0, 0, 0, 0, 0, 0, 0, 0, 0, 0, 0, 107, 101, 121, 95, 48] =
     [79, 118, 177, 128, 33, 166, 42, 221, 9, 40, 117, 153, 222, 252, 193, 158, 178, 214, 61, 73, 194, 217, 113, 126, 252, 249, 71, 30, 96, 67, 125, 105, 247, 238, 68, 27, 89, 156, 125, 135, 95, 56, 164, 8, 242, 247, 37, 27, 243, 54, 11, 16, 177, 65, 35, 101, 40, 227, 217, 90, 125, 171, 113, 210]"
  apply (simp add: sha3_512_def sha3_stage1)
  apply (simp only: keccak_eval)
  apply (simp add: sha3_stage3)
  done

lemma sha3_512_kdf_1:
  "sha3_512 [0, 0, 0, 1, 0, 0, 0, 0, 0, 0, 0, 0, 0, 0, 0, 0, 0, 0, 0, 0, 0, 0, 0, 0, 0, 0, 0, 0, 0, 0, 0, 0, 0, 0, 0, 0, 0, 0, 0, 0, 0, 0, 0, 0, 0, 0, 0, 0, 0, 0, 0, 0] =
     [85, 19, 191, 93, 172, 160, 103, 46, 45, 225, 147, 232, 34, 80, 222, 188, 69, 68, 207, 176, 92, 94, 158, 196, 181, 173, 159, 96, 51, 66, 234, 32, 31, 166, 221, 47, 26, 148, 153, 237, 226, 253, 201, 208, 128, 80, 54, 185, 254, 232, 42, 185, 147, 164, 87, 195, 35, 48, 117, 3, 14, 139, 241, 184]"
  apply (simp add: sha3_512_def sha3_stage1)
  apply (simp only: keccak_eval)
  apply (simp add: sha3_stage3)
  done

lemma sha3_512_key_10:
  "sha3_512 [0, 0, 0, 0, 0, 0, 0, 0, 0, 0, 0, 0, 0, 0, 0, 0, 0, 0, 0, 0, 0, 0, 0, 0, 0, 0, 0, 0, 0, 0, 0, 0, 107, 101, 121, 95, 49, 48] =
     [146, 239, 171, 176, 235, 41, 181, 113, 241, 237, 161, 178, 34, 220, 141, 191, 131, 76, 1, 172, 82, 197, 185, 30, 225, 2, 239, 82, 51, 90, 102, 183, 201, 210, 188, 71, 103, 130, 151, 190, 41, 149, 159, 213, 236, 69, 238, 157, 51, 115, 159, 203, 192, 245, 235, 89, 101, 177, 166, 143, 70, 82, 102, 152]"
  apply (simp add: sha3_512_def sha3_stage1)
  apply (simp only: keccak_eval)
  apply (simp add: sha3_stage3)
  done

lemma sha3_512_inner_code:
  "sha3_512 [164, 217, 157, 134, 221, 31, 131, 71, 199, 219, 151, 132, 20, 234, 187, 137, 54, 54, 54, 54, 54, 54, 54, 54, 54, 54, 54, 54, 54, 54, 54, 54, 54, 54, 54, 54, 54, 54, 54, 54, 54, 54, 54, 54, 54, 54, 54, 54, 54, 54, 54, 54, 54, 54, 54, 54, 54, 54, 54, 54, 54, 54, 54, 54, 54, 54, 54, 54, 54, 54, 54, 54, 54, 54, 54, 54, 54, 54, 54, 54, 54, 54, 54, 54, 54, 54, 54, 54, 54, 54, 54, 54, 54, 54, 54, 54, 54, 54, 54, 54, 54, 54, 54, 54, 54, 54, 54, 54, 54, 54, 54, 54, 54, 54, 54, 54, 54, 54, 54, 54, 54, 54, 54, 54, 54, 54, 54, 54, 54, 54, 54, 54, 54, 54, 54, 54, 0, 0, 0, 0, 0, 0, 0, 0, 0, 0, 0, 0, 0, 0, 0, 0] =
     [1, 169, 42, 35, 46, 235, 252, 161, 113, 27, 130, 24, 162, 63, 171, 131, 24, 17, 192, 124, 124, 143, 247, 74, 149, 37, 163, 174, 10, 58, 159, 72, 172, 40, 220, 170, 40, 153, 11, 145, 48, 224, 71, 136, 167, 189, 51, 49, 104, 246, 124, 136, 121, 100, 153, 199, 195, 109, 99, 215, 165, 190, 83, 151]"
  apply (simp add: sha3_512_def sha3_stage1)
  apply (simp only: keccak_eval)
  apply (simp add: sha3_stage3)
  done

lemma sha3_512_outer_code:
  "sha3_512 [206, 179, 247, 236, 183, 117, 233, 45, 173, 177, 253, 238, 126, 128, 209, 227, 92, 92, 92, 92, 92, 92, 92, 92, 92, 92, 92, 92, 92, 92, 92, 92, 92, 92, 92, 92, 92, 92, 92, 92, 92, 92, 92, 92, 92, 92, 92, 92, 92, 92, 92, 92, 92, 92, 92, 92, 92, 92, 92, 92, 92, 92, 92, 92, 92, 92, 92, 92, 92, 92, 92, 92, 92, 92, 92, 92, 92, 92, 92, 92, 92, 92, 92, 92, 92, 92, 92, 92, 92, 92, 92, 92, 92, 92, 92, 92, 92, 92, 92, 92, 92, 92, 92, 92, 92, 92, 92, 92, 92, 92, 92, 92, 92, 92, 92, 92, 92, 92, 92, 92, 92, 92, 92, 92, 92, 92, 92, 92, 92, 92, 92, 92, 92, 92, 92, 92, 1, 169, 42, 35, 46, 235, 252, 161, 113, 27, 130, 24, 162, 63, 171, 131, 24, 17, 192, 124, 124, 143, 247, 74, 149, 37, 163, 174, 10, 58, 159, 72, 172, 40, 220, 170, 40, 153, 11, 145, 48, 224, 71, 136, 167, 189, 51, 49, 104, 246, 124, 136, 121, 100, 153, 199, 195, 109, 99, 215, 165, 190, 83, 151] =
     [25, 189, 8, 240, 167, 134, 4, 217, 104, 63, 113, 226, 100, 173, 250, 80, 165, 193, 160, 113, 101, 166, 6, 33, 36, 77, 88, 8, 125, 134, 38, 112, 188, 146, 46, 46, 12, 187, 227, 38, 2, 209, 255, 43, 203, 173, 9, 168, 198, 241, 19, 148, 117, 223, 115, 51, 28, 168, 192, 54, 131, 109, 233, 83]"
  apply (simp add: sha3_512_def sha3_stage1)
  apply (simp only: keccak_eval)
  apply (simp add: sha3_stage3)
  done

lemma sha3_512_auth:
  "sha3_512 [65, 85, 84, 72, 0, 0, 0, 0, 0, 0, 0, 0, 0, 0, 0, 0, 0, 0, 0, 0, 0, 0, 0, 0, 0, 0, 0, 0, 0, 0, 0, 0, 0, 0, 0, 0, 0, 0, 0, 0, 0, 0, 0, 0, 0, 0, 0, 0, 0, 0, 0, 0] =
     [218, 127, 39, 178, 115, 191, 149, 71, 191, 191, 221, 66, 15, 227, 201, 235, 0, 26, 42, 218, 222, 47, 5, 97, 43, 155, 231, 132, 254, 143, 25, 134, 61, 213, 184, 18, 66, 99, 20, 40, 144, 106, 68, 122, 183, 42, 153, 138, 255, 127, 182, 10, 118, 80, 75, 51, 46, 16, 107, 8, 179, 2, 121, 82]"
  apply (simp add: sha3_512_def sha3_stage1)
  apply (simp only: keccak_eval)
  apply (simp add: sha3_stage3)
  done

lemma sha3_512_inner_spec:
  "sha3_512 [236, 73, 17, 132, 69, 137, 163, 113, 137, 137, 235, 116, 57, 213, 255, 221, 54, 44, 28, 236, 232, 25, 51, 87, 29, 173, 209, 178, 200, 185, 47, 176, 54, 54, 54, 54, 54, 54, 54, 54, 54, 54, 54, 54, 54, 54, 54, 54, 54, 54, 54, 54, 54, 54, 54, 54, 54, 54, 54, 54, 54, 54, 54, 54, 54, 54, 54, 54, 54, 54, 54, 54, 54, 54, 54, 54, 54, 54, 54, 54, 54, 54, 54, 54, 54, 54, 54, 54, 54, 54, 54, 54, 54, 54, 54, 54, 54, 54, 54, 54, 54, 54, 54, 54, 54, 54, 54, 54, 54, 54, 54, 54, 54, 54, 54, 54, 54, 54, 54, 54, 54, 54, 54, 54, 54, 54, 54, 54, 54, 54, 54, 54, 54, 54, 54, 54, 0, 0, 0, 0, 0, 0, 0, 0, 0, 0, 0, 0, 0, 0, 0, 0] =
     [93, 233, 198, 236, 31, 229, 219, 168, 13, 15, 85, 81, 181, 68, 255, 217, 11, 149, 252, 24, 35, 26, 192, 19, 243, 98, 116, 151, 38, 233, 218, 23, 252, 128, 235, 153, 244, 163, 211, 40, 105, 153, 155, 40, 149, 197, 157, 94, 183, 54, 252, 24, 88, 178, 144, 172, 176, 46, 115, 123, 212, 199, 227, 128]"
  apply (simp add: sha3_512_def sha3_stage1)
  apply (simp only: keccak_eval)
  apply (simp add: sha3_stage3)
  done

lemma sha3_512_outer_spec:
  "sha3_512 [134, 35, 123, 238, 47, 227, 201, 27, 227, 227, 129, 30, 83, 191, 149, 183, 92, 70, 118, 134, 130, 115, 89, 61, 119, 199, 187, 216, 162, 211, 69, 218, 92, 92, 92, 92, 92, 92, 92, 92, 92, 92, 92, 92, 92, 92, 92, 92, 92, 92, 92, 92, 92, 92, 92, 92, 92, 92, 92, 92, 92, 92, 92, 92, 92, 92, 92, 92, 92, 92, 92, 92, 92, 92, 92, 92, 92, 92, 92, 92, 92, 92, 92, 92, 92, 92, 92, 92, 92, 92, 92, 92, 92, 92, 92, 92, 92, 92, 92, 92, 92, 92, 92, 92, 92, 92, 92, 92, 92, 92, 92, 92, 92, 92, 92, 92, 92, 92, 92, 92, 92, 92, 92, 92, 92, 92, 92, 92, 92, 92, 92, 92, 92, 92, 92, 92, 93, 233, 198, 236, 31, 229, 219, 168, 13, 15, 85, 81, 181, 68, 255, 217, 11, 149, 252, 24, 35, 26, 192, 19, 243, 98, 116, 151, 38, 233, 218, 23, 252, 128, 235, 153, 244, 163, 211, 40, 105, 153, 155, 40, 149, 197, 157, 94, 183, 54, 252, 24, 88, 178, 144, 172, 176, 46, 115, 123, 212, 199, 227, 128] =
     [21, 51, 179, 131, 83, 162, 209, 216, 135, 61, 217, 44, 242, 89, 68, 4, 115, 73, 151, 47, 162, 109, 13, 23, 135, 26, 70, 93, 176, 207, 153, 104, 152, 31, 204, 112, 35, 234, 163, 62, 221, 151, 160, 10, 24, 48, 119, 205, 69, 3, 88, 135, 200, 42, 244, 206, 70, 71, 131, 159, 48, 85, 109, 61]"
  apply (simp add: sha3_512_def sha3_stage1)
  apply (simp only: keccak_eval)
  apply (simp add: sha3_stage3)
  done




lemma sha3_256_byte_8:
  "sha3_256 [8] =
     [4, 5, 139, 24, 5, 47, 216, 107, 42, 48, 50, 188, 197, 92, 130, 60, 72, 191, 88, 16, 163, 114, 111, 83, 138, 29, 1, 235, 180, 37, 132, 197]"
  apply (simp add: sha3_256_def sha3_stage1)
  apply (simp only: keccak_eval)
  apply (simp add: sha3_stage3)
  done

lemma sha3_256_byte_28:
  "sha3_256 [28] =
     [4, 95, 229, 113, 107, 15, 246, 41, 60, 30, 152, 74, 59, 105, 157, 253, 98, 143, 43, 92, 171, 71, 207, 103, 240, 33, 41, 114, 118, 199, 120, 215]"
  apply (simp add: sha3_256_def sha3_stage1)
  apply (simp only: keccak_eval)
  apply (simp add: sha3_stage3)
  done

lemma sha3_512_key_1:
  "sha3_512 [0, 0, 0, 0, 0, 0, 0, 0, 0, 0, 0, 0, 0, 0, 0, 0, 0, 0, 0, 0, 0, 0, 0, 0, 0, 0, 0, 0, 0, 0, 0, 0, 107, 101, 121, 95, 49] =
     [254, 204, 174, 161, 17, 20, 21, 250, 76, 150, 85, 131, 234, 114, 239, 99, 124, 171, 23, 29, 227, 64, 203, 161, 100, 106, 187, 120, 49, 133, 50, 239, 114, 110, 234, 102, 14, 47, 34, 17, 52, 131, 240, 183, 203, 235, 208, 153, 92, 10, 157, 107, 201, 48, 130, 153, 154, 26, 244, 187, 85, 167, 169, 203]"
  apply (simp add: sha3_512_def sha3_stage1)
  apply (simp only: keccak_eval)
  apply (simp add: sha3_stage3)
  done

lemma sha3_512_key_2:
  "sha3_512 [0, 0, 0, 0, 0, 0, 0, 0, 0, 0, 0, 0, 0, 0, 0, 0, 0, 0, 0, 0, 0, 0, 0, 0, 0, 0, 0, 0, 0, 0, 0, 0, 107, 101, 121, 95, 50] =
     [149, 238, 69, 105, 111, 122, 244, 169, 195, 118, 3, 89, 186, 205, 37, 233, 38, 13, 131, 236, 247, 215, 178, 114, 63, 95, 220, 100, 219, 229, 191, 58, 247, 6, 8, 89, 80, 130, 182, 253, 51, 251, 113, 3, 185, 133, 141, 76, 209, 232, 72, 127, 102, 55, 174, 112, 88, 195, 54, 213, 152, 80, 56, 122]"
  apply (simp add: sha3_512_def sha3_stage1)
  apply (simp only: keccak_eval)
  apply (simp add: sha3_stage3)
  done

lemma sha3_512_key_3:
  "sha3_512 [0, 0, 0, 0, 0, 0, 0, 0, 0, 0, 0, 0, 0, 0, 0, 0, 0, 0, 0, 0, 0, 0, 0, 0, 0, 0, 0, 0, 0, 0, 0, 0, 107, 101, 121, 95, 51] =
     [47, 150, 220, 31, 89, 202, 136, 13, 133, 226, 133, 84, 197, 203, 70, 68, 5, 96, 73, 217, 42, 36, 13, 20, 120, 113, 163, 154, 59, 150, 182, 228, 159, 167, 36, 66, 98, 56, 227, 220, 104, 251, 213, 166, 173, 243, 244, 107, 0, 202, 85, 54, 205, 198, 99, 63, 193, 170, 240, 83, 214, 94, 85, 128]"
  apply (simp add: sha3_512_def sha3_stage1)
  apply (simp only: keccak_eval)
  apply (simp add: sha3_stage3)
  done

lemma sha3_512_key_4:
  "sha3_512 [0, 0, 0, 0, 0, 0, 0, 0, 0, 0, 0, 0, 0, 0, 0, 0, 0, 0, 0, 0, 0, 0, 0, 0, 0, 0, 0, 0, 0, 0, 0, 0, 107, 101, 121, 95, 52] =
     [215, 231, 154, 76, 54, 142, 137, 157, 14, 0, 52, 157, 44, 116, 36, 21, 235, 90, 178, 158, 199, 133, 219, 209, 106, 119, 242, 232, 58, 77, 220, 228, 158, 128, 104, 214, 55, 131, 14, 196, 236, 86, 45, 37, 155, 36, 82, 172, 160, 138, 154, 148, 171, 65, 246, 71, 189, 246, 5, 189, 240, 191, 145, 51]"
  apply (simp add: sha3_512_def sha3_stage1)
  apply (simp only: keccak_eval)
  apply (simp add: sha3_stage3)
  done

lemma sha3_512_key_5:
  "sha3_512 [0, 0, 0, 0, 0, 0, 0, 0, 0, 0, 0, 0, 0, 0, 0, 0, 0, 0, 0, 0, 0, 0, 0, 0, 0, 0, 0, 0, 0, 0, 0, 0, 107, 101, 121, 95, 53] =
     [49, 23, 138, 201, 144, 94, 177, 146, 188, 216, 228, 25, 28, 19, 139, 196, 205, 85, 58, 34, 59, 160, 60, 140, 30, 65, 95, 66, 79, 65, 110, 231, 220, 71, 196, 22, 199, 225, 49, 197, 168, 117, 70, 15, 96, 50, 94, 234, 86, 107, 224, 174, 3, 109, 71, 61, 105, 78, 125, 82, 160, 234, 86, 241]"
  apply (simp add: sha3_512_def sha3_stage1)
  apply (simp only: keccak_eval)
  apply (simp add: sha3_stage3)
  done

lemma sha3_512_key_6:
  "sha3_512 [0, 0, 0, 0, 0, 0, 0, 0, 0, 0, 0, 0, 0, 0, 0, 0, 0, 0, 0, 0, 0, 0, 0, 0, 0, 0, 0, 0, 0, 0, 0, 0, 107, 101, 121, 95, 54] =
     [237, 77, 200, 15, 241, 30, 190, 9, 120, 145, 117, 197, 245, 100, 21, 10, 19, 27, 207, 158, 114, 122, 71, 7, 184, 251, 185, 38, 173, 36, 129, 209, 157, 159, 93, 209, 29, 45, 139, 250, 246, 132, 51, 14, 47, 78, 55, 160, 104, 207, 52, 225, 40, 55, 21, 15, 23, 44, 160, 227, 177, 154, 106, 139]"
  apply (simp add: sha3_512_def sha3_stage1)
  apply (simp only: keccak_eval)
  apply (simp add: sha3_stage3)
  done

lemma sha3_512_key_7:
  "sha3_512 [0, 0, 0, 0, 0, 0, 0, 0, 0, 0, 0, 0, 0, 0, 0, 0, 0, 0, 0, 0, 0, 0, 0, 0, 0, 0, 0, 0, 0, 0, 0, 0, 107, 101, 121, 95, 55] =
     [147, 22, 74, 97, 128, 17, 85, 66, 7, 3, 145, 251, 62, 35, 238, 55, 232, 119, 41, 244, 22, 122, 180, 4, 113, 173, 98, 49, 204, 168, 115, 241, 99, 162, 82, 149, 247, 133, 47, 233, 88, 207, 240, 157, 181, 62, 140, 98, 176, 104, 23, 24, 243, 255, 114, 191, 236, 167, 254, 226, 12, 199, 243, 87]"
  apply (simp add: sha3_512_def sha3_stage1)
  apply (simp only: keccak_eval)
  apply (simp add: sha3_stage3)
  done

lemma sha3_512_key_8:
  "sha3_512 [0, 0, 0, 0, 0, 0, 0, 0, 0, 0, 0, 0, 0, 0, 0, 0, 0, 0, 0, 0, 0, 0, 0, 0, 0, 0, 0, 0, 0, 0, 0, 0, 107, 101, 121, 95, 56] =
     [108, 129, 183, 157, 213, 249, 149, 76, 202, 60, 208, 17, 92, 129, 122, 214, 128, 34, 244, 17, 226, 16, 133, 219, 176, 231, 239, 177, 178, 250, 201, 44, 64, 99, 46, 168, 116, 182, 187, 53, 248, 149, 197, 244, 51, 55, 96, 229, 107, 138, 105, 155, 205, 9, 37, 38, 34, 153, 34, 108, 62, 252, 176, 153]"
  apply (simp add: sha3_512_def sha3_stage1)
  apply (simp only: keccak_eval)
  apply (simp add: sha3_stage3)
  done

lemma sha3_512_key_9:
  "sha3_512 [0, 0, 0, 0, 0, 0, 0, 0, 0, 0, 0, 0, 0, 0, 0, 0, 0, 0, 0, 0, 0, 0, 0, 0, 0, 0, 0, 0, 0, 0, 0, 0, 107, 101, 121, 95, 57] =
     [178, 216, 19, 134, 240, 183, 149, 1, 245, 231, 185, 175, 34, 158, 150, 238, 89, 55, 162, 220, 205, 112, 147, 11, 167, 118, 252, 207, 169, 168, 34, 123, 108, 16, 229, 35, 82, 135, 17, 30, 187, 209, 209, 17, 252, 12, 75, 133, 241, 79, 16, 208, 151, 225, 204, 70, 140, 44, 65, 25, 3, 22, 33, 98]"
  apply (simp add: sha3_512_def sha3_stage1)
  apply (simp only: keccak_eval)
  apply (simp add: sha3_stage3)
  done

lemma sha3_512_iv:
  "sha3_512 [0, 0, 0, 0, 0, 0, 0, 0, 0, 0, 0, 0, 0, 0, 0, 0, 0, 0, 0, 0, 0, 0, 0, 0, 0, 0, 0, 0, 0, 0, 0, 0, 0, 0, 0, 0, 0, 0, 0, 0, 0, 0, 0, 0, 0, 0, 0, 0] =
     [171, 151, 97, 182, 195, 114, 160, 194, 182, 157, 152, 236, 26, 16, 145, 136, 136, 145, 129, 126, 153, 116, 42, 145, 11, 219, 134, 134, 126, 102, 67, 37, 199, 230, 106, 228, 155, 179, 29, 171, 162, 97, 220, 240, 235, 24, 210, 88, 253, 88, 107, 20, 49, 252, 218, 165, 146, 229, 152, 181, 41, 159, 1, 192]"
  apply (simp add: sha3_512_def sha3_stage1)
  apply (simp only: keccak_eval)
  apply (simp add: sha3_stage3)
  done

lemma sha3_256_byte_170:
  "sha3_256 [170] =
     [173, 94, 244, 26, 198, 107, 88, 38, 38, 57, 125, 83, 91, 178, 118, 28, 182, 32, 58, 80, 60, 201, 171, 174, 157, 229, 153, 187, 227, 18, 136, 6]"
  apply (simp add: sha3_256_def sha3_stage1)
  apply (simp only: keccak_eval)
  apply (simp add: sha3_stage3)
  done

lemma sha3_256_byte_113:
  "sha3_256 [113] =
     [138, 94, 29, 51, 159, 175, 195, 147, 80, 253, 140, 241, 215, 202, 121, 130, 9, 28, 39, 246, 183, 127, 117, 189, 77, 218, 179, 223, 66, 91, 79, 140]"
  apply (simp add: sha3_256_def sha3_stage1)
  apply (simp only: keccak_eval)
  apply (simp add: sha3_stage3)
  done

lemma sha3_256_byte_100:
  "sha3_256 [100] =
     [76, 232, 118, 94, 114, 12, 87, 111, 111, 90, 52, 202, 56, 11, 61, 229, 240, 145, 46, 110, 60, 197, 53, 85, 66, 195, 99, 137, 30, 84, 89, 75]"
  apply (simp add: sha3_256_def sha3_stage1)
  apply (simp only: keccak_eval)
  apply (simp add: sha3_stage3)
  done

lemma sha3_256_byte_166:
  "sha3_256 [166] =
     [147, 214, 67, 150, 130, 65, 197, 82, 182, 74, 255, 72, 36, 65, 119, 58, 39, 223, 146, 22, 174, 217, 61, 187, 79, 216, 116, 157, 221, 161, 214, 192]"
  apply (simp add: sha3_256_def sha3_stage1)
  apply (simp only: keccak_eval)
  apply (simp add: sha3_stage3)
  done

lemma sha3_256_byte_19:
  "sha3_256 [19] =
     [21, 148, 162, 45, 30, 29, 209, 118, 230, 243, 90, 226, 109, 142, 250, 41, 69, 137, 226, 54, 118, 225, 253, 201, 23, 66, 58, 18, 130, 84, 101, 40]"
  apply (simp add: sha3_256_def sha3_stage1)
  apply (simp only: keccak_eval)
  apply (simp add: sha3_stage3)
  done

lemma sha3_256_byte_160:
  "sha3_256 [160] =
     [42, 166, 162, 23, 129, 255, 180, 82, 150, 100, 152, 174, 90, 212, 103, 203, 47, 173, 59, 147, 20, 74, 98, 148, 35, 123, 192, 52, 205, 164, 138, 35]"
  apply (simp add: sha3_256_def sha3_stage1)
  apply (simp only: keccak_eval)
  apply (simp add: sha3_stage3)
  done

lemma sha3_256_byte_157:
  "sha3_256 [157] =
     [75, 179, 162, 77, 30, 240, 128, 198, 4, 232, 242, 40, 245, 211, 135, 164, 225, 5, 86, 193, 161, 215, 129, 19, 178, 151, 114, 161, 244, 17, 77, 23]"
  apply (simp add: sha3_256_def sha3_stage1)
  apply (simp only: keccak_eval)
  apply (simp add: sha3_stage3)
  done

lemma sha3_256_byte_39:
  "sha3_256 [39] =
     [99, 176, 157, 196, 55, 152, 255, 246, 69, 109, 87, 197, 23, 159, 133, 61, 113, 216, 156, 19, 199, 89, 193, 203, 57, 191, 176, 17, 147, 62, 73, 48]"
  apply (simp add: sha3_256_def sha3_stage1)
  apply (simp only: keccak_eval)
  apply (simp add: sha3_stage3)
  done

lemma sha3_256_byte_33:
  "sha3_256 [33] =
     [105, 85, 125, 144, 48, 181, 20, 210, 60, 63, 168, 154, 118, 10, 239, 175, 102, 138, 53, 151, 248, 93, 52, 61, 118, 189, 205, 196, 251, 70, 250, 178]"
  apply (simp add: sha3_256_def sha3_stage1)
  apply (simp only: keccak_eval)
  apply (simp add: sha3_stage3)
  done

lemma sha3_256_byte_220:
  "sha3_256 [220] =
     [78, 54, 55, 237, 235, 228, 174, 252, 69, 13, 103, 11, 215, 23, 33, 37, 194, 68, 31, 118, 82, 1, 147, 245, 237, 25, 45, 92, 83, 195, 176, 189]"
  apply (simp add: sha3_256_def sha3_stage1)
  apply (simp only: keccak_eval)
  apply (simp add: sha3_stage3)
  done

lemma sha3_256_byte_120:
  "sha3_256 [120] =
     [116, 30, 250, 49, 31, 151, 104, 105, 86, 148, 103, 88, 224, 217, 95, 112, 241, 31, 242, 218, 79, 47, 235, 124, 84, 49, 79, 68, 19, 74, 196, 159]"
  apply (simp add: sha3_256_def sha3_stage1)
  apply (simp only: keccak_eval)
  apply (simp add: sha3_stage3)
  done

lemma sha3_256_byte_32:
  "sha3_256 [32] =
     [96, 232, 147, 230, 213, 77, 133, 38, 229, 90, 129, 249, 139, 250, 197, 218, 35, 107, 178, 3, 232, 78, 213, 150, 122, 143, 82, 125, 91, 243, 212, 164]"
  apply (simp add: sha3_256_def sha3_stage1)
  apply (simp only: keccak_eval)
  apply (simp add: sha3_stage3)
  done

lemma sha3_256_byte_69:
  "sha3_256 [69] =
     [230, 58, 132, 193, 132, 71, 191, 202, 92, 103, 178, 10, 88, 252, 106, 79, 239, 167, 98, 228, 250, 14, 107, 59, 46, 70, 246, 77, 171, 163, 69, 229]"
  apply (simp add: sha3_256_def sha3_stage1)
  apply (simp only: keccak_eval)
  apply (simp add: sha3_stage3)
  done

lemma sha3_256_byte_148:
  "sha3_256 [148] =
     [221, 47, 102, 70, 46, 236, 113, 235, 24, 75, 198, 249, 251, 231, 0, 113, 9, 8, 33, 246, 13, 128, 234, 139, 6, 23, 130, 159, 54, 127, 157, 220]"
  apply (simp add: sha3_256_def sha3_stage1)
  apply (simp only: keccak_eval)
  apply (simp add: sha3_stage3)
  done

lemma sha3_256_byte_212:
  "sha3_256 [212] =
     [61, 27, 213, 130, 159, 154, 231, 53, 73, 28, 30, 129, 204, 197, 64, 89, 253, 229, 51, 212, 98, 207, 153, 174, 236, 60, 99, 132, 71, 216, 86, 15]"
  apply (simp add: sha3_256_def sha3_stage1)
  apply (simp only: keccak_eval)
  apply (simp add: sha3_stage3)
  done

subsection \<open>Digests at the inputs of the claims\<close>




lemma round_keys_zero:
  "map (\<lambda>i. take 16 (sha3_512 (replicate 32 0 @ ascii (''key_'' @ decimal_nat i)))) [0..<11] =
     [[79, 118, 177, 128, 33, 166, 42, 221, 9, 40, 117, 153, 222, 252, 193, 158],
      [254, 204, 174, 161, 17, 20, 21, 250, 76, 150, 85, 131, 234, 114, 239, 99],
      [149, 238, 69, 105, 111, 122, 244, 169, 195, 118, 3, 89, 186, 205, 37, 233],
      [47, 150, 220, 31, 89, 202, 136, 13, 133, 226, 133, 84, 197, 203, 70, 68],
      [215, 231, 154, 76, 54, 142, 137, 157, 14, 0, 52, 157, 44, 116, 36, 21],
      [49, 23, 138, 201, 144, 94, 177, 146, 188, 216, 228, 25, 28, 19, 139, 196],
      [237, 77, 200, 15, 241, 30, 190, 9, 120, 145, 117, 197, 245, 100, 21, 10],
      [147, 22, 74, 97, 128, 17, 85, 66, 7, 3, 145, 251, 62, 35, 238, 55],
      [108, 129, 183, 157, 213, 249, 149, 76, 202, 60, 208, 17, 92, 129, 122, 214],
      [178, 216, 19, 134, 240, 183, 149, 1, 245, 231, 185, 175, 34, 158, 150, 238],
      [146, 239, 171, 176, 235, 41, 181, 113, 241, 237, 161, 178, 34, 220, 141, 191]]"
  by (simp add: upt_11 decimal_nat.simps ascii_def replicate_numeral
      sha3_512_key_0 sha3_512_key_1 sha3_512_key_2 sha3_512_key_3 sha3_512_key_4 sha3_512_key_5 sha3_512_key_6 sha3_512_key_7 sha3_512_key_8 sha3_512_key_9 sha3_512_key_10)

lemma DecryptBlock_zero_last:
  fixes keys :: "bytes list"
  assumes keys: "keys =
     [[79, 118, 177, 128, 33, 166, 42, 221, 9, 40, 117, 153, 222, 252, 193, 158],
      [254, 204, 174, 161, 17, 20, 21, 250, 76, 150, 85, 131, 234, 114, 239, 99],
      [149, 238, 69, 105, 111, 122, 244, 169, 195, 118, 3, 89, 186, 205, 37, 233],
      [47, 150, 220, 31, 89, 202, 136, 13, 133, 226, 133, 84, 197, 203, 70, 68],
      [215, 231, 154, 76, 54, 142, 137, 157, 14, 0, 52, 157, 44, 116, 36, 21],
      [49, 23, 138, 201, 144, 94, 177, 146, 188, 216, 228, 25, 28, 19, 139, 196],
      [237, 77, 200, 15, 241, 30, 190, 9, 120, 145, 117, 197, 245, 100, 21, 10],
      [147, 22, 74, 97, 128, 17, 85, 66, 7, 3, 145, 251, 62, 35, 238, 55],
      [108, 129, 183, 157, 213, 249, 149, 76, 202, 60, 208, 17, 92, 129, 122, 214],
      [178, 216, 19, 134, 240, 183, 149, 1, 245, 231, 185, 175, 34, 158, 150, 238],
      [146, 239, 171, 176, 235, 41, 181, 113, 241, 237, 161, 178, 34, 220, 141, 191]]"
  shows "DecryptBlock (replicate 64 0) keys ! 63 = 61"
proof -
  define s0 where "s0 = xorLastKey (replicate 64 0) (expandKey (keys ! (length keys - 1)))"
  define s1 where "s1 = decRound keys s0 15"
  define s2 where "s2 = decRound keys s1 14"
  define s3 where "s3 = decRound keys s2 13"
  define s4 where "s4 = decRound keys s3 12"
  define s5 where "s5 = decRound keys s4 11"
  define s6 where "s6 = decRound keys s5 10"
  define s7 where "s7 = decRound keys s6 9"
  define s8 where "s8 = decRound keys s7 8"
  define s9 where "s9 = decRound keys s8 7"
  define s10 where "s10 = decRound keys s9 6"
  define s11 where "s11 = decRound keys s10 5"
  define s12 where "s12 = decRound keys s11 4"
  define s13 where "s13 = decRound keys s12 3"
  define s14 where "s14 = decRound keys s13 2"
  define s15 where "s15 = decRound keys s14 1"
  define s16 where "s16 = decRound keys s15 0"
  have l0: "length s0 = 64" unfolding s0_def by (simp add: length_xorLastKey)
  have l1: "length s1 = 64" unfolding s1_def using l0 by (rule length_decRound)
  have l2: "length s2 = 64" unfolding s2_def using l1 by (rule length_decRound)
  have l3: "length s3 = 64" unfolding s3_def using l2 by (rule length_decRound)
  have l4: "length s4 = 64" unfolding s4_def using l3 by (rule length_decRound)
  have l5: "length s5 = 64" unfolding s5_def using l4 by (rule length_decRound)
  have l6: "length s6 = 64" unfolding s6_def using l5 by (rule length_decRound)
  have l7: "length s7 = 64" unfolding s7_def using l6 by (rule length_decRound)
  have l8: "length s8 = 64" unfolding s8_def using l7 by (rule length_decRound)
  have l9: "length s9 = 64" unfolding s9_def using l8 by (rule length_decRound)
  have l10: "length s10 = 64" unfolding s10_def using l9 by (rule length_decRound)
  have l11: "length s11 = 64" unfolding s11_def using l10 by (rule length_decRound)
  have l12: "length s12 = 64" unfolding s12_def using l11 by (rule length_decRound)
  have l13: "length s13 = 64" unfolding s13_def using l12 by (rule length_decRound)
  have l14: "length s14 = 64" unfolding s14_def using l13 by (rule length_decRound)
  have l15: "length s15 = 64" unfolding s15_def using l14 by (rule length_decRound)
  have l16: "length s16 = 64" unfolding s16_def using l15 by (rule length_decRound)
  have v0: "s0 ! 47 = 191" unfolding s0_def by (simp add: xorLastKey_nth keys)
  have v1: "s1 ! 50 = 173" unfolding s1_def
    using v0 by (simp add: decRound_nth l0 keys sha3_256_byte_170)
  have v2: "s2 ! 1 = 138" unfolding s2_def
    using v1 by (simp add: decRound_nth l1 keys sha3_256_byte_113)
  have v3: "s3 ! 12 = 76" unfolding s3_def
    using v2 by (simp add: decRound_nth l2 keys sha3_256_byte_100)
  have v4: "s4 ! 3 = 147" unfolding s4_def
    using v3 by (simp add: decRound_nth l3 keys sha3_256_byte_166)
  have v5: "s5 ! 22 = 21" unfolding s5_def
    using v4 by (simp add: decRound_nth l4 keys sha3_256_byte_19)
  have v6: "s6 ! 53 = 42" unfolding s6_def
    using v5 by (simp add: decRound_nth l5 keys sha3_256_byte_160)
  have v7: "s7 ! 16 = 75" unfolding s7_def
    using v6 by (simp add: decRound_nth l6 keys sha3_256_byte_157)
  have v8: "s8 ! 23 = 99" unfolding s8_def
    using v7 by (simp add: decRound_nth l7 keys sha3_256_byte_39)
  have v9: "s9 ! 58 = 105" unfolding s9_def
    using v8 by (simp add: decRound_nth l8 keys sha3_256_byte_33)
  have v10: "s10 ! 41 = 4" unfolding s10_def
    using v9 by (simp add: decRound_nth l9 keys sha3_256_byte_28)
  have v11: "s11 ! 20 = 78" unfolding s11_def
    using v10 by (simp add: decRound_nth l10 keys sha3_256_byte_220)
  have v12: "s12 ! 43 = 116" unfolding s12_def
    using v11 by (simp add: decRound_nth l11 keys sha3_256_byte_120)
  have v13: "s13 ! 30 = 96" unfolding s13_def
    using v12 by (simp add: decRound_nth l12 keys sha3_256_byte_32)
  have v14: "s14 ! 29 = 230" unfolding s14_def
    using v13 by (simp add: decRound_nth l13 keys sha3_256_byte_69)
  have v15: "s15 ! 24 = 221" unfolding s15_def
    using v14 by (simp add: decRound_nth l14 keys sha3_256_byte_148)
  have v16: "s16 ! 63 = 61" unfolding s16_def
    using v15 by (simp add: decRound_nth l15 keys sha3_256_byte_212)
  have "DecryptBlock (replicate 64 0) keys = s16"
    unfolding s16_def s15_def s14_def s13_def s12_def s11_def s10_def s9_def s8_def s7_def
      s6_def s5_def s4_def s3_def s2_def s1_def s0_def
    by (simp add: DecryptBlock_def rounds_desc)
  then show ?thesis using v16 by simp
qed

lemma DecryptData_zero_block:
  "DecryptData (replicate 64 0 @ replicate 16 0
        @ ComputeHMAC (take 16 (sha3_512 (replicate 32 0 @ ascii ''key_10'')))
            (replicate 16 0 @ replicate 64 0))
      (replicate 32 0) = Inl (InvalidPadding 253)"
proof -
  let ?keys = "map (\<lambda>i. take 16 (sha3_512 (replicate 32 0 @ ascii (''key_'' @ decimal_nat i)))) [0..<11]"
  let ?iv = "DeriveIV (replicate 16 0) (replicate 32 0)"
  let ?p = "map2 (XOR) (DecryptBlock (replicate 64 0) ?keys) ?iv"
  have d: "DecryptBlock (replicate 64 0) ?keys ! 63 = 61"
    using round_keys_zero by (rule DecryptBlock_zero_last)
  have iv: "?iv ! 63 = 192"
    by (simp add: DeriveIV_def replicate_numeral sha3_512_iv)
  have len: "length ?p = 64"
    by (simp add: length_DecryptBlock DeriveIV_def)
  have "?p ! 63 = 253"
    using d iv by (simp add: length_DecryptBlock DeriveIV_def)
  then have "removePadding ?p = Inl (InvalidPadding 253)"
    using len by (intro removePadding_bad_length) auto
  then show ?thesis
    using DecryptData_valid_tag [of "replicate 32 0" "replicate 16 0" "replicate 64 0"]
    by (simp add: cbcDecrypt_one_block)
qed

section \<open>The claims\<close>

subsection \<open>C10: the reverse permutation\<close>

text \<open>
  Claim C10. On every block of 64 bytes \<^verbatim>\<open>ReversePermuteBlock\<close> returns what
  \<^verbatim>\<open>PermuteBlock\<close> returns: both put the input byte \<open>j\<close> at position
  \<open>(5j + 7) mod 64\<close>. So the reverse step of the block decryption permutes forward once
  more and does not undo the permutation: after both steps position 0 holds the byte
  that was at position 6.
\<close>

theorem ReversePermuteBlock_is_PermuteBlock:
  assumes "length block = 64"
  shows "ReversePermuteBlock block = PermuteBlock block
       \<and> ReversePermuteBlock (PermuteBlock block) ! 0 = block ! 6"
proof -
  have "PermuteBlock (PermuteBlock block) ! 0 = PermuteBlock block ! 37"
    using assms by (simp add: PermuteBlock_nth length_PermuteBlock)
  also have "\<dots> = block ! 6"
    using assms by (simp add: PermuteBlock_nth)
  finally show ?thesis
    using assms by (simp add: ReversePermuteBlock_eq length_PermuteBlock)
qed

text \<open>The theorem of claim C10 at the block of the bytes 0 to 63.\<close>

theorem ReversePermuteBlock_is_PermuteBlock_witness:
  "length (map of_nat [0..<64] :: bytes) = 64
   \<and> ReversePermuteBlock (map of_nat [0..<64]) = PermuteBlock (map of_nat [0..<64])
   \<and> ReversePermuteBlock (PermuteBlock (map of_nat [0..<64])) ! 0 = (6 :: byte)"
  using ReversePermuteBlock_is_PermuteBlock [of "map of_nat [0..<64]"] by simp

subsection \<open>C1: the round trip\<close>

text \<open>
  Claim C1 says that decrypting what \<^verbatim>\<open>EncryptData\<close> returns gives the plaintext
  back. The code at the empty plaintext, the key of 32 zero bytes and the nonce of
  16 zero bytes: encryption succeeds and the decryption of its frame fails with
  \<^verbatim>\<open>decrypted plaintext is empty\<close>.
\<close>

theorem roundtrip_breaks_on_empty_plaintext:
  "(case EncryptData (\<lambda>_. 0) [] (replicate 32 0) (Some (replicate 16 0)) of
      Inl err \<Rightarrow> False
    | Inr frame \<Rightarrow> DecryptData frame (replicate 32 0) = Inl EmptyPlaintext)"
  by (simp add: EncryptData_empty DecryptData_empty_frame)

subsection \<open>C2: the padding\<close>

text \<open>
  Claim C2 says that 64 - (L mod 64) padding bytes are appended to every plaintext, and
  that the empty plaintext gives a ciphertext of 64 bytes. The code at the empty
  plaintext: the padding step appends nothing, and the frame is the nonce followed by
  the tag, with no ciphertext block.
\<close>

theorem empty_plaintext_is_not_padded:
  "padPlaintext [] = []
   \<and> EncryptData (\<lambda>_. 0) [] (replicate 32 0) (Some (replicate 16 0)) = Inr ((replicate 16 0) @ (ComputeHMAC (take 16 (sha3_512 (replicate 32 0 @ ascii ''key_10''))) (replicate 16 0)))"
  by (simp add: EncryptData_empty padPlaintext_aligned)

subsection \<open>C6: what a failed decryption tells\<close>

text \<open>
  Claim C6 says that a failed decryption returns the same error for a wrong tag and for
  a wrong padding. Two frames for the key of 32 zero bytes refute it. The first is a
  ciphertext block of 64 zero bytes, the nonce of 16 zero bytes and the tag of both: it
  passes the tag check, its block decrypts to a last byte of 253, and the padding
  removal fails with \<^verbatim>\<open>invalid padding: 253\<close>. The second is the same frame with the
  lowest bit of every tag byte flipped: it fails with
  \<^verbatim>\<open>authentication tag verification failed\<close>.
\<close>

theorem padding_error_differs_from_tag_error:
  "DecryptData ((replicate 64 0) @ (replicate 16 0) @ (ComputeHMAC (take 16 (sha3_512 (replicate 32 0 @ ascii ''key_10''))) (replicate 16 0 @ replicate 64 0))) (replicate 32 0) = Inl (InvalidPadding 253)
   \<and> DecryptData ((replicate 64 0) @ (replicate 16 0) @ map (\<lambda>b. b XOR 1) (ComputeHMAC (take 16 (sha3_512 (replicate 32 0 @ ascii ''key_10''))) (replicate 16 0 @ replicate 64 0))) (replicate 32 0) = Inl AuthTagFailed"
proof -
  have "map (\<lambda>b. b XOR 1) (ComputeHMAC (take 16 (sha3_512 (replicate 32 0 @ ascii ''key_10''))) (replicate 16 0 @ replicate 64 0)) \<noteq> (ComputeHMAC (take 16 (sha3_512 (replicate 32 0 @ ascii ''key_10''))) (replicate 16 0 @ replicate 64 0))"
    by (rule flipped_tag_differs) simp
  then have "DecryptData ((replicate 64 0) @ (replicate 16 0) @ map (\<lambda>b. b XOR 1) (ComputeHMAC (take 16 (sha3_512 (replicate 32 0 @ ascii ''key_10''))) (replicate 16 0 @ replicate 64 0))) (replicate 32 0) = Inl AuthTagFailed"
    by (simp add: DecryptData_cases)
  then show ?thesis
    by (simp add: DecryptData_zero_block)
qed

text \<open>
  Claim C6 as amended. For a key of 32 bytes and a frame of at least 80 bytes,
  \<^verbatim>\<open>DecryptData\<close> returns the tag error exactly when the tag of the frame is not the
  HMAC of nonce and ciphertext under the last round key, and it returns one of the
  errors of the padding removal (empty plaintext, invalid padding length, invalid
  padding bytes) only when the tag is that HMAC: the error tells the two failures apart.
\<close>

theorem DecryptData_error_reveals_stage:
  assumes "length masterKey = 32" and "80 \<le> length F"
  shows "(DecryptData F masterKey = Inl AuthTagFailed) =
           (drop (length F - 64) F \<noteq>
              ComputeHMAC (take 16 (sha3_512 (masterKey @ ascii ''key_10'')))
                (take 16 (drop (length F - 80) F) @ take (length F - 80) F))
       \<and> (DecryptData F masterKey \<in>
              {Inl EmptyPlaintext, Inl InvalidPaddingBytes} \<union> range (\<lambda>p. Inl (InvalidPadding p))
            \<longrightarrow> drop (length F - 64) F =
              ComputeHMAC (take 16 (sha3_512 (masterKey @ ascii ''key_10'')))
                (take 16 (drop (length F - 80) F) @ take (length F - 80) F))"
  using assms
  by (auto simp: DecryptData_cases removePadding_not_auth split: sum.splits
      dest: cbcDecrypt_errors)

text \<open>The theorem of claim C6 at the frame of the zero block, the nonce and its tag, which
  fails in the padding removal.\<close>

theorem DecryptData_error_reveals_stage_witness:
  "length (replicate 32 0) = 32 \<and> 80 \<le> length ((replicate 64 0) @ (replicate 16 0) @ (ComputeHMAC (take 16 (sha3_512 (replicate 32 0 @ ascii ''key_10''))) (replicate 16 0 @ replicate 64 0)))
   \<and> DecryptData ((replicate 64 0) @ (replicate 16 0) @ (ComputeHMAC (take 16 (sha3_512 (replicate 32 0 @ ascii ''key_10''))) (replicate 16 0 @ replicate 64 0))) (replicate 32 0) = Inl (InvalidPadding 253)
   \<and> DecryptData ((replicate 64 0) @ (replicate 16 0) @ (ComputeHMAC (take 16 (sha3_512 (replicate 32 0 @ ascii ''key_10''))) (replicate 16 0 @ replicate 64 0))) (replicate 32 0) \<noteq> Inl AuthTagFailed
   \<and> drop (length ((replicate 64 0) @ (replicate 16 0) @ (ComputeHMAC (take 16 (sha3_512 (replicate 32 0 @ ascii ''key_10''))) (replicate 16 0 @ replicate 64 0))) - 64) ((replicate 64 0) @ (replicate 16 0) @ (ComputeHMAC (take 16 (sha3_512 (replicate 32 0 @ ascii ''key_10''))) (replicate 16 0 @ replicate 64 0))) = (ComputeHMAC (take 16 (sha3_512 (replicate 32 0 @ ascii ''key_10''))) (replicate 16 0 @ replicate 64 0))"
  using DecryptData_error_reveals_stage [of "(replicate 32 0)" "(replicate 64 0) @ (replicate 16 0) @ (ComputeHMAC (take 16 (sha3_512 (replicate 32 0 @ ascii ''key_10''))) (replicate 16 0 @ replicate 64 0))"]
  by (simp add: DecryptData_zero_block)

subsection \<open>C7: the length check of a frame\<close>

text \<open>
  Claim C7 says that a frame is rejected as invalid, before the tag is verified, when
  its length minus 80 is not a positive multiple of 64. The code at a frame of 81
  bytes, for the key of 32 zero bytes: one ciphertext byte, the nonce of 16 zero bytes
  and the tag of both. The only length check of \<^verbatim>\<open>DecryptData\<close> lets it pass, the
  tag verifies, and the decryption loop, which takes the length of the ciphertext for
  a multiple of 64, then writes behind the end of the plaintext and panics.
\<close>

theorem frame_of_81_bytes_passes_length_check:
  "length (0 # (replicate 16 0) @ ComputeHMAC (take 16 (sha3_512 ((replicate 32 0) @ ascii ''key_10''))) ((replicate 16 0) @ [0])) = 81
   \<and> DecryptData (0 # (replicate 16 0) @ ComputeHMAC (take 16 (sha3_512 ((replicate 32 0) @ ascii ''key_10''))) ((replicate 16 0) @ [0])) (replicate 32 0)
       = Inl Panic"
  by (simp add: DecryptData_one_byte_frame)

subsection \<open>C8: the key lifecycle\<close>





subsection \<open>C9: erasing key material\<close>




subsection \<open>C5: the S-boxes\<close>

text \<open>
  Claim C5 says that each S-box table is a permutation of the byte values and that the
  byte substitution of the block transform is injective. The code: the first table has
  256 entries of which only the first 16 are written, so the entries 16 and 17 are both
  zero; and \<^verbatim>\<open>SubstituteBlock\<close>, which takes the first byte of the SHA3-256 digest of
  the input byte, maps the bytes 8 and 28 to the same byte.
\<close>

theorem sbox_tables_are_not_bijective:
  "length (SBoxTable ! 0) = 256
   \<and> SBoxTable ! 0 ! 16 = SBoxTable ! 0 ! 17
   \<and> SubstituteBlock [8] = SubstituteBlock [28]"
  by (simp add: SBoxTable_def sboxRow_def nth_append SubstituteBlock_def
      sha3_256_byte_8 sha3_256_byte_28)


subsection \<open>C3: the round keys\<close>

text \<open>
  Claim C3 says that the round key \<open>i\<close> that encryption uses is the first 16 bytes of
  the SHA3-512 digest of the counter \<open>i + 1\<close> in four bytes, the master key, the nonce and
  the shared secret. The round key 0 that \<^verbatim>\<open>DeriveKeys\<close> gives for the key of 32 zero
  bytes is not the one of that format with the nonce of 16 zero bytes and no shared
  secret.
\<close>

theorem round_key_is_not_in_counter_format:
  "(case DeriveKeys (replicate 32 0) of Inl err \<Rightarrow> [] | Inr keys \<Rightarrow> keys ! 0)
     \<noteq> take 16 (sha3_512 (be32 1 @ (replicate 32 0) @ (replicate 16 0)))"
  by (simp add: DeriveKeys_Inr decimal_nat.simps ascii_def be32_def replicate_numeral
      sha3_512_key_0 sha3_512_kdf_1)

text \<open>
  Claim C3 as amended. For a master key of 32 bytes and \<open>i < 11\<close>, the round key \<open>i\<close>
  that encryption uses, the one of \<^verbatim>\<open>DeriveKeys\<close>, is the first 16 bytes of the
  SHA3-512 digest of the master key followed by the text \<^verbatim>\<open>key_\<close> and \<open>i\<close> in decimal;
  no nonce and no shared secret enter it. The counter format is what
  \<^verbatim>\<open>DeriveKeysNISTSP80056A\<close> computes, with the counter argument added to \<open>i + 1\<close>.
\<close>

theorem round_key_derivation:
  assumes "length masterKey = 32" and "i < 11"
  shows "(case DeriveKeys masterKey of
            Inl err \<Rightarrow> False
          | Inr keys \<Rightarrow>
              keys ! i = take 16 (sha3_512 (masterKey @ ascii (''key_'' @ decimal_nat i))))
       \<and> DeriveKeysNISTSP80056A masterKey nonce sharedSecret counter ! i =
           take 16 (sha3_512 (be32 (counter + of_nat (i + 1)) @ masterKey @ nonce @ sharedSecret))"
  using assms by (simp add: DeriveKeys_Inr DeriveKeysNISTSP80056A_def)

text \<open>The theorem of claim C3 at the key of 32 zero bytes and the round key 0.\<close>

theorem round_key_derivation_witness:
  "length (replicate 32 0) = 32 \<and> (0::nat) < 11
   \<and> (case DeriveKeys (replicate 32 0) of Inl err \<Rightarrow> False
       | Inr keys \<Rightarrow> keys ! 0 = take 16 (sha3_512 ((replicate 32 0) @ ascii ''key_0'')))
   \<and> DeriveKeysNISTSP80056A (replicate 32 0) (replicate 16 0) [] 0 ! 0 = take 16 (sha3_512 (be32 1 @ (replicate 32 0) @ (replicate 16 0)))"
  using round_key_derivation [of "(replicate 32 0)" 0 "(replicate 16 0)" "[]" 0]
  by (simp add: DeriveKeys_Inr decimal_nat.simps)


subsection \<open>C4: the authentication tag\<close>

text \<open>
  Claim C4 says that the tag is the HMAC of nonce and ciphertext under the first
  32 bytes of the SHA3-512 digest of \<^verbatim>\<open>AUTH\<close>, the master key and the nonce. The frame
  of the empty plaintext under the key of 32 zero bytes and the nonce of 16 zero bytes
  refutes it: its tag is not the HMAC under that key.
\<close>

theorem tag_is_not_keyed_with_auth_key:
  "(case EncryptData (\<lambda>_. 0) [] (replicate 32 0) (Some (replicate 16 0)) of
      Inl err \<Rightarrow> []
    | Inr frame \<Rightarrow> drop (length frame - 64) frame)
     \<noteq> ComputeHMAC (take 32 (sha3_512 (ascii ''AUTH'' @ (replicate 32 0) @ (replicate 16 0)))) ((replicate 16 0) @ [])"
  by (simp add: EncryptData_empty ComputeHMAC_def hmacExpandKey_def hmacBlockSize_def
      ascii_def replicate_numeral
      sha3_512_key_10 sha3_512_inner_code sha3_512_outer_code
      sha3_512_auth sha3_512_inner_spec sha3_512_outer_spec)

text \<open>
  Claim C4 as amended. For a master key of 32 bytes and a nonce of 16 bytes, the last
  64 bytes of the frame that \<^verbatim>\<open>EncryptData\<close> returns are the HMAC of the nonce followed
  by the ciphertext, keyed with the last round key: the first 16 bytes of the
  SHA3-512 digest of the master key followed by the text \<^verbatim>\<open>key_10\<close>. The 16 bytes
  before the tag are the nonce.
\<close>

theorem tag_is_hmac_under_last_round_key:
  assumes "length masterKey = 32" and "length nonce = 16"
    and "EncryptData rnd plaintext masterKey (Some nonce) = Inr frame"
  shows "drop (length frame - 64) frame =
           ComputeHMAC (take 16 (sha3_512 (masterKey @ ascii ''key_10'')))
             (nonce @ take (length frame - 80) frame)
       \<and> take 16 (drop (length frame - 80) frame) = nonce"
  using assms
  by (auto simp: EncryptData_def KeySize_def NonceSize_def DeriveKeys_Inr decimal_nat_10 Let_def)

text \<open>The theorem of claim C4 at the empty plaintext.\<close>

theorem tag_is_hmac_under_last_round_key_witness:
  "length (replicate 32 0) = 32 \<and> length (replicate 16 0) = 16
   \<and> EncryptData (\<lambda>_. 0) [] (replicate 32 0) (Some (replicate 16 0)) = Inr ((replicate 16 0) @ (ComputeHMAC (take 16 (sha3_512 (replicate 32 0 @ ascii ''key_10''))) (replicate 16 0)))
   \<and> drop (length ((replicate 16 0) @ (ComputeHMAC (take 16 (sha3_512 (replicate 32 0 @ ascii ''key_10''))) (replicate 16 0))) - 64) ((replicate 16 0) @ (ComputeHMAC (take 16 (sha3_512 (replicate 32 0 @ ascii ''key_10''))) (replicate 16 0))) = (ComputeHMAC (take 16 (sha3_512 (replicate 32 0 @ ascii ''key_10''))) (replicate 16 0))"
  using tag_is_hmac_under_last_round_key [of "(replicate 32 0)" "(replicate 16 0)" "\<lambda>_. 0" "[]" "(replicate 16 0) @ (ComputeHMAC (take 16 (sha3_512 (replicate 32 0 @ ascii ''key_10''))) (replicate 16 0))"]
  by (simp add: EncryptData_empty)

end
